theory Spec2Isabelle
  imports Complex_Main
begin

section \<open>Python values, exceptions and the field map\<close>

text \<open>
  The validator of \<^verbatim>\<open>utils/validators.py\<close> reads a loosely typed dictionary. A value
  is \<^verbatim>\<open>None\<close>, a bool, an int, a float, a string or a list. Floats are idealised as reals:
  rounding, infinities and NaN are outside the model. Strings are byte strings, so only the
  ASCII part of Python's case mapping and whitespace is represented.
\<close>

datatype pyval = PNone | PBool bool | PInt int | PFloat real | PStr string | PList "pyval list"

datatype exn = TypeError string | AttributeError string | OverflowError string
  | ZeroDivisionError string | LibraryError string

fun exn_str :: "exn \<Rightarrow> string" where
  "exn_str (TypeError m) = m"
| "exn_str (AttributeError m) = m"
| "exn_str (OverflowError m) = m"
| "exn_str (ZeroDivisionError m) = m"
| "exn_str (LibraryError m) = m"

fun type_name :: "pyval \<Rightarrow> string" where
  "type_name PNone = ''NoneType''"
| "type_name (PBool b) = ''bool''"
| "type_name (PInt i) = ''int''"
| "type_name (PFloat x) = ''float''"
| "type_name (PStr s) = ''str''"
| "type_name (PList xs) = ''list''"

text \<open>Truth value of a Python object, as used by \<^verbatim>\<open>if value:\<close> and \<^verbatim>\<open>not value\<close>.\<close>

fun truthy :: "pyval \<Rightarrow> bool" where
  "truthy PNone = False"
| "truthy (PBool b) = b"
| "truthy (PInt i) = (i \<noteq> 0)"
| "truthy (PFloat x) = (x \<noteq> 0)"
| "truthy (PStr s) = (s \<noteq> [])"
| "truthy (PList xs) = (xs \<noteq> [])"

fun is_str :: "pyval \<Rightarrow> bool" where
  "is_str (PStr s) = True"
| "is_str v = False"

text \<open>
  A dictionary is an association list (a Python dict has pairwise distinct keys; the first
  binding of a key is the one looked up). \<open>dget\<close> is \<^verbatim>\<open>claim_data.get(k)\<close>,
  \<open>dget_default\<close> is \<^verbatim>\<open>claim_data.get(k, "")\<close>.
\<close>

type_synonym claim_data = "(string \<times> pyval) list"

definition dget :: "claim_data \<Rightarrow> string \<Rightarrow> pyval" where
  "dget cd k = (case map_of cd k of None \<Rightarrow> PNone | Some v \<Rightarrow> v)"

definition dget_default :: "claim_data \<Rightarrow> string \<Rightarrow> pyval" where
  "dget_default cd k = (case map_of cd k of None \<Rightarrow> PStr [] | Some v \<Rightarrow> v)"

subsection \<open>Strings\<close>

definition is_lower :: "char \<Rightarrow> bool" where
  "is_lower c = (let n = (of_char c :: nat) in 97 \<le> n \<and> n \<le> 122)"

definition is_upper :: "char \<Rightarrow> bool" where
  "is_upper c = (let n = (of_char c :: nat) in 65 \<le> n \<and> n \<le> 90)"

definition is_digit :: "char \<Rightarrow> bool" where
  "is_digit c = (let n = (of_char c :: nat) in 48 \<le> n \<and> n \<le> 57)"

text \<open>ASCII whitespace of \<^verbatim>\<open>str.strip\<close> and of the regular-expression class \<^verbatim>\<open>\s\<close>.\<close>

definition is_space :: "char \<Rightarrow> bool" where
  "is_space c = (let n = (of_char c :: nat) in (9 \<le> n \<and> n \<le> 13) \<or> (28 \<le> n \<and> n \<le> 32))"

definition upper_char :: "char \<Rightarrow> char" where
  "upper_char c = (if is_lower c
     then (case c of Char b0 b1 b2 b3 b4 b5 b6 b7 \<Rightarrow> Char b0 b1 b2 b3 b4 False b6 b7)
     else c)"

definition lower_char :: "char \<Rightarrow> char" where
  "lower_char c = (if is_upper c
     then (case c of Char b0 b1 b2 b3 b4 b5 b6 b7 \<Rightarrow> Char b0 b1 b2 b3 b4 True b6 b7)
     else c)"

definition str_upper :: "string \<Rightarrow> string" where
  "str_upper s = map upper_char s"

definition str_lower :: "string \<Rightarrow> string" where
  "str_lower s = map lower_char s"

definition py_strip :: "string \<Rightarrow> string" where
  "py_strip s = rev (dropWhile is_space (rev (dropWhile is_space s)))"

fun starts_with :: "string \<Rightarrow> string \<Rightarrow> bool" where
  "starts_with [] s = True"
| "starts_with (k # ks) [] = False"
| "starts_with (k # ks) (c # cs) = (k = c \<and> starts_with ks cs)"

text \<open>\<open>py_in k s\<close> is the substring test \<^verbatim>\<open>k in s\<close>.\<close>

fun py_in :: "string \<Rightarrow> string \<Rightarrow> bool" where
  "py_in k [] = (k = [])"
| "py_in k (c # cs) = (starts_with k (c # cs) \<or> py_in k cs)"

fun join :: "string \<Rightarrow> string list \<Rightarrow> string" where
  "join sep [] = []"
| "join sep [x] = x"
| "join sep (x # y # ys) = x @ sep @ join sep (y # ys)"

text \<open>
  \<open>py_len\<close>, \<open>py_lower\<close> and \<open>py_upper\<close> are \<^verbatim>\<open>len(v)\<close>, \<^verbatim>\<open>v.lower()\<close> and
  \<^verbatim>\<open>v.upper()\<close> on an arbitrary value: they raise on a value that has no length or no such
  method. The message texts follow CPython.
\<close>

fun py_len :: "pyval \<Rightarrow> exn + nat" where
  "py_len (PStr s) = Inr (length s)"
| "py_len (PList xs) = Inr (length xs)"
| "py_len v = Inl (TypeError (''object of type '' @ [CHR 0x27] @ type_name v @ [CHR 0x27] @ '' has no len()''))"

definition no_attribute :: "pyval \<Rightarrow> string \<Rightarrow> exn" where
  "no_attribute v a = AttributeError ([CHR 0x27] @ type_name v @ [CHR 0x27] @ '' object has no attribute ''
     @ [CHR 0x27] @ a @ [CHR 0x27])"

fun py_lower :: "pyval \<Rightarrow> exn + string" where
  "py_lower (PStr s) = Inr (str_lower s)"
| "py_lower v = Inl (no_attribute v ''lower'')"

fun py_upper :: "pyval \<Rightarrow> exn + string" where
  "py_upper (PStr s) = Inr (str_upper s)"
| "py_upper v = Inl (no_attribute v ''upper'')"

text \<open>
  \<open>re_match_plus cls s\<close> is \<^verbatim>\<open>re.match(r"^[cls]+$", s)\<close> and \<open>re_match_count cls n s\<close> is
  \<^verbatim>\<open>re.match(r"^[cls]{n}$", s)\<close>: the whole string is in the class, where \<^verbatim>\<open>$\<close> also
  matches just before one final newline. A value that is not a string makes \<^verbatim>\<open>re.match\<close>
  raise.
\<close>

definition chomp :: "string \<Rightarrow> string" where
  "chomp s = (if s \<noteq> [] \<and> last s = CHR 0x0A then butlast s else s)"

definition re_match_plus :: "(char \<Rightarrow> bool) \<Rightarrow> string \<Rightarrow> bool" where
  "re_match_plus cls s = ((s \<noteq> [] \<and> list_all cls s) \<or> (chomp s \<noteq> [] \<and> list_all cls (chomp s)))"

definition re_match_count :: "(char \<Rightarrow> bool) \<Rightarrow> nat \<Rightarrow> string \<Rightarrow> bool" where
  "re_match_count cls n s = ((length s = n \<and> list_all cls s) \<or> (length (chomp s) = n \<and> list_all cls (chomp s)))"

definition re_type_error :: "pyval \<Rightarrow> exn" where
  "re_type_error v = TypeError (''expected string or bytes-like object, got '' @ [CHR 0x27] @ type_name v @ [CHR 0x27])"

subsection \<open>Dates\<close>

text \<open>
  The part of Python's \<^verbatim>\<open>datetime\<close> that the validator uses: a date is (year, month, day);
  \<open>toordinal\<close> counts days from 0001-01-01 = 1, \<open>weekday\<close> has Monday = 0.
\<close>

type_synonym date = "int \<times> int \<times> int"

definition is_leap :: "int \<Rightarrow> bool" where
  "is_leap y = (y mod 4 = 0 \<and> (y mod 100 \<noteq> 0 \<or> y mod 400 = 0))"

definition days_in_month :: "int \<Rightarrow> int \<Rightarrow> int" where
  "days_in_month y m = (if m = 2 then (if is_leap y then 29 else 28)
     else if m = 4 \<or> m = 6 \<or> m = 9 \<or> m = 11 then 30 else 31)"

definition days_before_year :: "int \<Rightarrow> int" where
  "days_before_year y = (let p = y - 1 in p * 365 + p div 4 - p div 100 + p div 400)"

definition days_before_month :: "int \<Rightarrow> int \<Rightarrow> int" where
  "days_before_month y m =
     [0, 31, 59, 90, 120, 151, 181, 212, 243, 273, 304, 334] ! nat (m - 1)
       + (if m > 2 \<and> is_leap y then 1 else 0)"

fun toordinal :: "date \<Rightarrow> int" where
  "toordinal (y, m, d) = days_before_year y + days_before_month y m + d"

definition weekday :: "date \<Rightarrow> int" where
  "weekday dt = (toordinal dt + 6) mod 7"

definition digit_val :: "char \<Rightarrow> int" where
  "digit_val c = int (of_char c) - 48"

definition digits_val :: "string \<Rightarrow> int" where
  "digits_val s = foldl (\<lambda>a c. 10 * a + digit_val c) 0 s"

fun split_on :: "char \<Rightarrow> string \<Rightarrow> string list" where
  "split_on sep [] = [[]]"
| "split_on sep (c # cs) =
     (if c = sep then [] # split_on sep cs
      else (case split_on sep cs of [] \<Rightarrow> [[c]] | w # ws \<Rightarrow> (c # w) # ws))"

text \<open>
  The directives of \<^verbatim>\<open>strptime\<close>: \<^verbatim>\<open>%Y\<close> is exactly four digits, \<^verbatim>\<open>%m\<close> is
  \<^verbatim>\<open>1[0-2]|0[1-9]|[1-9]\<close>, \<^verbatim>\<open>%d\<close> is \<^verbatim>\<open>3[0-1]|[1-2]\d|0[1-9]|[1-9]| [1-9]\<close>.
  The separators of the four accepted formats occur in no directive, so a string matches
  a format exactly when it splits at the separator into three fields that each match their
  directive as a whole.
\<close>

datatype directive = DirY | DirM | DirD

fun parse_directive :: "directive \<Rightarrow> string \<Rightarrow> int option" where
  "parse_directive DirY s =
     (if length s = 4 \<and> list_all is_digit s then Some (digits_val s) else None)"
| "parse_directive DirM s =
     (if (length s = 1 \<or> length s = 2) \<and> list_all is_digit s \<and> 1 \<le> digits_val s \<and> digits_val s \<le> 12
      then Some (digits_val s) else None)"
| "parse_directive DirD s =
     (if (length s = 1 \<or> length s = 2) \<and> list_all is_digit s \<and> 1 \<le> digits_val s \<and> digits_val s \<le> 31
      then Some (digits_val s)
      else (case s of [a, b] \<Rightarrow> (if a = CHR 0x20 \<and> is_digit b \<and> 1 \<le> digit_val b then Some (digit_val b) else None)
            | _ \<Rightarrow> None))"

text \<open>A format is its separator and the order of its three directives.\<close>

type_synonym date_format = "char \<times> directive \<times> directive \<times> directive"

definition make_date :: "int option \<Rightarrow> int option \<Rightarrow> int option \<Rightarrow> date option" where
  "make_date yo mo dd = (case (yo, mo, dd) of
       (Some y, Some m, Some d) \<Rightarrow>
         (if 1 \<le> y \<and> d \<le> days_in_month y m then Some (y, m, d) else None)
     | _ \<Rightarrow> None)"

fun field_of :: "directive \<Rightarrow> (directive \<times> string) list \<Rightarrow> int option" where
  "field_of k [] = None"
| "field_of k ((k', s) # rest) = (if k = k' then parse_directive k s else field_of k rest)"

text \<open>\<open>strptime s fmt\<close> is \<^verbatim>\<open>datetime.strptime(s, fmt).date()\<close>; \<open>None\<close> is its ValueError.\<close>

fun strptime :: "string \<Rightarrow> date_format \<Rightarrow> date option" where
  "strptime s (sep, a, b, c) =
     (case split_on sep s of
        [x, y, z] \<Rightarrow>
          (let fs = [(a, x), (b, y), (c, z)]
           in make_date (field_of DirY fs) (field_of DirM fs) (field_of DirD fs))
      | _ \<Rightarrow> None)"

definition fmt_iso :: date_format where
  "fmt_iso = (CHR ''-'', DirY, DirM, DirD)"

definition fmt_mdy :: date_format where
  "fmt_mdy = (CHR ''/'', DirM, DirD, DirY)"

definition fmt_dmy :: date_format where
  "fmt_dmy = (CHR ''/'', DirD, DirM, DirY)"

definition fmt_ymd_slash :: date_format where
  "fmt_ymd_slash = (CHR ''/'', DirY, DirM, DirD)"

definition digit_char :: "int \<Rightarrow> char" where
  "digit_char n = ''0123456789'' ! nat n"

definition pad2 :: "int \<Rightarrow> string" where
  "pad2 n = [digit_char (n div 10 mod 10), digit_char (n mod 10)]"

definition pad4 :: "int \<Rightarrow> string" where
  "pad4 n = [digit_char (n div 1000 mod 10), digit_char (n div 100 mod 10),
             digit_char (n div 10 mod 10), digit_char (n mod 10)]"

text \<open>\<open>strftime_iso d\<close> is \<^verbatim>\<open>d.strftime("%Y-%m-%d")\<close>, the year written with four digits.\<close>

fun strftime_iso :: "date \<Rightarrow> string" where
  "strftime_iso (y, m, d) = pad4 y @ ''-'' @ pad2 m @ ''-'' @ pad2 d"

section \<open>The accumulator \<^verbatim>\<open>ValidationResult\<close>\<close>

text \<open>
  A corrected value is a suggested replacement value or, under the key
  \<^verbatim>\<open>risk_assessment\<close>, the record of risk factors, overall risk and recommended action.
\<close>

datatype corrected_value = Corrected pyval | RiskAssessment "string list" string string

record ValidationResult =
  is_valid :: bool
  errors :: "(string \<times> string) list"
  warnings :: "(string \<times> string) list"
  corrections :: "string \<rightharpoonup> (pyval \<times> corrected_value)"
  risk_score :: real
  fraud_indicators :: "(string \<times> string \<times> string) list"

definition ValidationResult_init :: ValidationResult where
  "ValidationResult_init = \<lparr>is_valid = True, errors = [], warnings = [], corrections = Map.empty,
     risk_score = 0, fraud_indicators = []\<rparr>"

definition add_error :: "string \<Rightarrow> string \<Rightarrow> ValidationResult \<Rightarrow> ValidationResult" where
  "add_error field message r = r\<lparr>is_valid := False, errors := errors r @ [(field, message)]\<rparr>"

definition add_warning :: "string \<Rightarrow> string \<Rightarrow> ValidationResult \<Rightarrow> ValidationResult" where
  "add_warning field message r = r\<lparr>warnings := warnings r @ [(field, message)]\<rparr>"

definition add_correction :: "string \<Rightarrow> pyval \<Rightarrow> corrected_value \<Rightarrow> ValidationResult \<Rightarrow> ValidationResult" where
  "add_correction field original corrected r =
     r\<lparr>corrections := (corrections r)(field \<mapsto> (original, corrected))\<rparr>"

definition severity_scores :: "string \<Rightarrow> real" where
  "severity_scores severity =
     (if severity = ''low'' then 1 / 10 else if severity = ''medium'' then 3 / 10
      else if severity = ''high'' then 5 / 10 else 1 / 10)"

definition add_fraud_indicator :: "string \<Rightarrow> string \<Rightarrow> string \<Rightarrow> ValidationResult \<Rightarrow> ValidationResult" where
  "add_fraud_indicator indicator severity details r =
     r\<lparr>fraud_indicators := fraud_indicators r @ [(indicator, severity, details)],
       risk_score := risk_score r + severity_scores severity\<rparr>"

text \<open>\<open>add_risk c\<close> is the statement \<^verbatim>\<open>result.risk_score += c\<close> of the risk assessment.\<close>

definition add_risk :: "real \<Rightarrow> ValidationResult \<Rightarrow> ValidationResult" where
  "add_risk c r = r\<lparr>risk_score := risk_score r + c\<rparr>"

definition cap_risk :: "ValidationResult \<Rightarrow> ValidationResult" where
  "cap_risk r = r\<lparr>risk_score := min (risk_score r) 1\<rparr>"

text \<open>The dictionary of \<^verbatim>\<open>to_dict\<close>; the time stamp is read from the clock and is passed in.\<close>

record ValidationDict =
  dict_is_valid :: bool
  dict_errors :: "(string \<times> string) list"
  dict_warnings :: "(string \<times> string) list"
  dict_corrections :: "string \<rightharpoonup> (pyval \<times> corrected_value)"
  dict_risk_score :: real
  dict_fraud_indicators :: "(string \<times> string \<times> string) list"
  dict_validation_timestamp :: string

definition to_dict :: "string \<Rightarrow> ValidationResult \<Rightarrow> ValidationDict" where
  "to_dict now r = \<lparr>dict_is_valid = is_valid r, dict_errors = errors r, dict_warnings = warnings r,
     dict_corrections = corrections r, dict_risk_score = min (risk_score r) 1,
     dict_fraud_indicators = fraud_indicators r, dict_validation_timestamp = now\<rparr>"

section \<open>Configuration, clock and libraries\<close>

text \<open>
  What the validator reads from outside its own file: the settings, today's date, the e-mail and
  phone-number libraries, and Python's conversion of a string to a number and of a float to text.
\<close>

datatype email_outcome = EmailValidated string | EmailNotValidError string | EmailRaises exn

datatype phone_outcome = NumberParseException | PhoneInvalid | PhoneValid string | PhoneRaises exn

record env =
  max_claim_amount :: real
  auto_approve_threshold :: real
  manual_review_threshold :: real
  today :: date
  validate_email :: "pyval \<Rightarrow> email_outcome"
  phone_parse :: "pyval \<Rightarrow> phone_outcome"
  float_of_str :: "string \<Rightarrow> real option"
  int_of_str :: "string \<Rightarrow> int option"
  fmt_float :: "string \<Rightarrow> real \<Rightarrow> string"

definition current_year :: "env \<Rightarrow> int" where
  "current_year e = fst (today e)"

text \<open>
  \<open>py_float\<close> is \<^verbatim>\<open>float(v)\<close> and \<open>py_int\<close> is \<^verbatim>\<open>int(v)\<close>; \<open>None\<close> stands for
  ValueError and TypeError, which every caller catches together. A blank string is never a
  number; \<^verbatim>\<open>int\<close> of a float truncates towards zero.
\<close>

fun py_float :: "env \<Rightarrow> pyval \<Rightarrow> real option" where
  "py_float e PNone = None"
| "py_float e (PBool b) = Some (if b then 1 else 0)"
| "py_float e (PInt i) = Some (of_int i)"
| "py_float e (PFloat x) = Some x"
| "py_float e (PStr s) = (if py_strip s = [] then None else float_of_str e s)"
| "py_float e (PList xs) = None"

definition trunc :: "real \<Rightarrow> int" where
  "trunc x = (if 0 \<le> x then \<lfloor>x\<rfloor> else \<lceil>x\<rceil>)"

fun py_int :: "env \<Rightarrow> pyval \<Rightarrow> int option" where
  "py_int e PNone = None"
| "py_int e (PBool b) = Some (if b then 1 else 0)"
| "py_int e (PInt i) = Some i"
| "py_int e (PFloat x) = Some (trunc x)"
| "py_int e (PStr s) = (if py_strip s = [] then None else int_of_str e s)"
| "py_int e (PList xs) = None"

text \<open>\<open>py_fmod x m\<close> is the float remainder \<^verbatim>\<open>x % m\<close> for a positive \<open>m\<close>.\<close>

definition py_fmod :: "real \<Rightarrow> real \<Rightarrow> real" where
  "py_fmod x m = x - m * of_int \<lfloor>x / m\<rfloor>"

text \<open>\<open>py_truediv a b\<close> is the float division \<^verbatim>\<open>a / b\<close>, which raises on a zero divisor.\<close>

definition py_truediv :: "real \<Rightarrow> real \<Rightarrow> exn + real" where
  "py_truediv a b = (if b = 0 then Inl (ZeroDivisionError ''float division by zero'') else Inr (a / b))"

section \<open>Stages\<close>

text \<open>
  A sub-validator mutates the shared accumulator and may raise part-way: it maps the
  accumulator to the accumulator it leaves behind and the exception it raised, if any.
  \<open>run_all\<close> runs statements in sequence and stops at the first one that raises.
\<close>

type_synonym stage = "ValidationResult \<Rightarrow> ValidationResult \<times> exn option"

definition ok :: stage where
  "ok r = (r, None)"

definition raise :: "exn \<Rightarrow> stage" where
  "raise x r = (r, Some x)"

fun run_all :: "stage list \<Rightarrow> stage" where
  "run_all [] r = (r, None)"
| "run_all (f # fs) r = (case f r of (r', None) \<Rightarrow> run_all fs r' | (r', Some x) \<Rightarrow> (r', Some x))"

section \<open>The sub-validators of \<^verbatim>\<open>ClaimValidator\<close>\<close>

text \<open>
  Each method is the sequence of its blocks, one definition per block, in the order of the
  source; a leading underscore of a method name is dropped.
\<close>

subsection \<open>Required fields\<close>

definition required_fields :: "string list" where
  "required_fields = [''claimant_name'', ''incident_date'', ''claim_amount'', ''incident_description'']"

definition blank_str :: "pyval \<Rightarrow> bool" where
  "blank_str v = (case v of PStr s \<Rightarrow> py_strip s = [] | _ \<Rightarrow> False)"

text \<open>The test \<^verbatim>\<open>not value or (isinstance(value, str) and not value.strip())\<close>.\<close>

definition missing_or_empty :: "pyval \<Rightarrow> bool" where
  "missing_or_empty v = (\<not> truthy v \<or> (is_str v \<and> blank_str v))"

definition required_message :: "string \<Rightarrow> string" where
  "required_message field = ''Required field '' @ [CHR 0x27] @ field @ [CHR 0x27] @ '' is missing or empty''"

fun check_required :: "claim_data \<Rightarrow> string list \<Rightarrow> ValidationResult \<Rightarrow> ValidationResult" where
  "check_required cd [] r = r"
| "check_required cd (field # fs) r =
     check_required cd fs
       (if missing_or_empty (dget cd field) then add_error field (required_message field) r else r)"

definition validate_required_fields :: "claim_data \<Rightarrow> stage" where
  "validate_required_fields cd r = ok (check_required cd required_fields r)"

subsection \<open>Personal information\<close>

definition py_re_match :: "(string \<Rightarrow> bool) \<Rightarrow> pyval \<Rightarrow> exn + bool" where
  "py_re_match m v = (case v of PStr s \<Rightarrow> Inr (m s) | _ \<Rightarrow> Inl (re_type_error v))"

definition name_class :: "char \<Rightarrow> bool" where
  "name_class c = (is_lower c \<or> is_upper c \<or> is_space c \<or> c = CHR ''-'' \<or> c = CHR ''.'' \<or> c = CHR 0x27)"

definition validate_claimant_name :: "claim_data \<Rightarrow> stage" where
  "validate_claimant_name cd r =
     (let claimant_name = dget cd ''claimant_name'' in
      if truthy claimant_name then
        (case py_len claimant_name of
           Inl x \<Rightarrow> raise x r
         | Inr n \<Rightarrow>
             if n < 2 then ok (add_error ''claimant_name'' ''Name is too short'' r)
             else if n > 100 then ok (add_error ''claimant_name'' ''Name is too long'' r)
             else (case py_re_match (re_match_plus name_class) claimant_name of
                     Inl x \<Rightarrow> raise x r
                   | Inr m \<Rightarrow>
                       if \<not> m then ok (add_warning ''claimant_name'' ''Name contains unusual characters'' r)
                       else ok r))
      else ok r)"

definition validate_claimant_email :: "env \<Rightarrow> claim_data \<Rightarrow> stage" where
  "validate_claimant_email e cd r =
     (let claimant_email = dget cd ''claimant_email'' in
      if truthy claimant_email then
        (case validate_email e claimant_email of
           EmailValidated normalized \<Rightarrow>
             if PStr normalized \<noteq> claimant_email
             then ok (add_correction ''claimant_email'' claimant_email (Corrected (PStr normalized)) r)
             else ok r
         | EmailNotValidError m \<Rightarrow> ok (add_error ''claimant_email'' (''Invalid email address: '' @ m) r)
         | EmailRaises x \<Rightarrow> raise x r)
      else ok r)"

definition validate_claimant_phone :: "env \<Rightarrow> claim_data \<Rightarrow> stage" where
  "validate_claimant_phone e cd r =
     (let claimant_phone = dget cd ''claimant_phone'' in
      if truthy claimant_phone then
        (case phone_parse e claimant_phone of
           NumberParseException \<Rightarrow> ok (add_error ''claimant_phone'' ''Unable to parse phone number'' r)
         | PhoneInvalid \<Rightarrow> ok (add_error ''claimant_phone'' ''Invalid phone number'' r)
         | PhoneValid formatted_number \<Rightarrow>
             if PStr formatted_number \<noteq> claimant_phone
             then ok (add_correction ''claimant_phone'' claimant_phone (Corrected (PStr formatted_number)) r)
             else ok r
         | PhoneRaises x \<Rightarrow> raise x r)
      else ok r)"

definition validate_personal_information :: "env \<Rightarrow> claim_data \<Rightarrow> stage" where
  "validate_personal_information e cd =
     run_all [validate_claimant_name cd, validate_claimant_email e cd, validate_claimant_phone e cd]"

subsection \<open>Policy information\<close>

definition policy_class :: "char \<Rightarrow> bool" where
  "policy_class c = (is_upper c \<or> is_digit c \<or> c = CHR ''-'')"

definition validate_policy_number :: "claim_data \<Rightarrow> stage" where
  "validate_policy_number cd r =
     (let policy_number = dget cd ''policy_number'' in
      if truthy policy_number then
        (case py_len policy_number of
           Inl x \<Rightarrow> raise x r
         | Inr n \<Rightarrow>
             if n < 5 then ok (add_error ''policy_number'' ''Policy number is too short'' r)
             else if n > 50 then ok (add_error ''policy_number'' ''Policy number is too long'' r)
             else (case py_upper policy_number of
                     Inl x \<Rightarrow> raise x r
                   | Inr u \<Rightarrow>
                       if \<not> re_match_plus policy_class u
                       then ok (add_warning ''policy_number'' ''Policy number format is unusual'' r)
                       else ok r))
      else ok r)"

definition known_insurers :: "string list" where
  "known_insurers = [''State Farm'', ''GEICO'', ''Progressive'', ''Allstate'', ''USAA'',
     ''Liberty Mutual'', ''Farmers'', ''Nationwide'', ''American Family'',
     ''Travelers'', ''Auto-Owners'', ''AAA'', ''Esurance'', ''The General'']"

definition validate_insurance_company :: "claim_data \<Rightarrow> stage" where
  "validate_insurance_company cd r =
     (let insurance_company = dget cd ''insurance_company'' in
      if truthy insurance_company then
        (case py_lower insurance_company of
           Inl x \<Rightarrow> raise x r
         | Inr company \<Rightarrow>
             if \<not> list_ex (\<lambda>insurer. py_in (str_lower insurer) company) known_insurers
             then ok (add_warning ''insurance_company'' ''Insurance company not in common list'' r)
             else ok r)
      else ok r)"

definition validate_policy_information :: "claim_data \<Rightarrow> stage" where
  "validate_policy_information cd = run_all [validate_policy_number cd, validate_insurance_company cd]"

subsection \<open>Incident information\<close>

definition date_formats :: "date_format list" where
  "date_formats = [fmt_iso, fmt_mdy, fmt_dmy, fmt_ymd_slash]"

text \<open>The loop over \<^verbatim>\<open>date_formats\<close> that stops at the first format that parses.\<close>

fun first_parse :: "string \<Rightarrow> date_format list \<Rightarrow> date option" where
  "first_parse s [] = None"
| "first_parse s (fmt # fmts) =
     (case strptime s fmt of Some d \<Rightarrow> Some d | None \<Rightarrow> first_parse s fmts)"

text \<open>
  The body of the \<^verbatim>\<open>try\<close> for a string. \<^verbatim>\<open>today - timedelta(days=365 * 5)\<close> is evaluated
  only when the date is not in the future, and raises OverflowError when it would fall before
  0001-01-01; dates are compared through their ordinals.
\<close>

definition suggest_standard_format :: "string \<Rightarrow> date \<Rightarrow> ValidationResult \<Rightarrow> ValidationResult" where
  "suggest_standard_format s parsed_date r =
     (let standard_format = strftime_iso parsed_date in
      if s \<noteq> standard_format
      then add_correction ''incident_date'' (PStr s) (Corrected (PStr standard_format)) r
      else r)"

definition incident_date_body :: "env \<Rightarrow> string \<Rightarrow> stage" where
  "incident_date_body e s r =
     (case first_parse s date_formats of
        None \<Rightarrow> ok (add_error ''incident_date'' ''Unable to parse incident date'' r)
      | Some parsed_date \<Rightarrow>
          if toordinal parsed_date > toordinal (today e)
          then ok (suggest_standard_format s parsed_date
                 (add_error ''incident_date'' ''Incident date cannot be in the future'' r))
          else if toordinal (today e) - 365 * 5 < 1
          then raise (OverflowError ''date value out of range'') r
          else if toordinal parsed_date < toordinal (today e) - 365 * 5
          then ok (suggest_standard_format s parsed_date
                 (add_warning ''incident_date'' ''Incident date is more than 5 years ago'' r))
          else ok (suggest_standard_format s parsed_date r))"

definition validate_incident_date :: "env \<Rightarrow> claim_data \<Rightarrow> stage" where
  "validate_incident_date e cd r =
     (let incident_date = dget cd ''incident_date'' in
      if truthy incident_date then
        (case (case incident_date of PStr s \<Rightarrow> incident_date_body e s r | _ \<Rightarrow> ok r) of
           (r', None) \<Rightarrow> ok r'
         | (r', Some x) \<Rightarrow> ok (add_error ''incident_date'' (''Invalid incident date: '' @ exn_str x) r'))
      else ok r)"

definition validate_incident_description :: "claim_data \<Rightarrow> stage" where
  "validate_incident_description cd r =
     (let incident_description = dget cd ''incident_description'' in
      if truthy incident_description then
        (case py_len incident_description of
           Inl x \<Rightarrow> raise x r
         | Inr n \<Rightarrow>
             if n < 10 then ok (add_warning ''incident_description'' ''Incident description is very brief'' r)
             else if n > 2000
             then ok (add_warning ''incident_description'' ''Incident description is unusually long'' r)
             else ok r)
      else ok r)"

definition validate_incident_information :: "env \<Rightarrow> claim_data \<Rightarrow> stage" where
  "validate_incident_information e cd =
     run_all [validate_incident_date e cd, validate_incident_description cd]"

subsection \<open>Vehicle information\<close>

definition validate_vehicle_year :: "env \<Rightarrow> claim_data \<Rightarrow> stage" where
  "validate_vehicle_year e cd r =
     (let vehicle_year = dget cd ''vehicle_year'' in
      if truthy vehicle_year then
        (case py_int e vehicle_year of
           None \<Rightarrow> ok (add_error ''vehicle_year'' ''Invalid vehicle year format'' r)
         | Some year \<Rightarrow>
             if year < 1900 then ok (add_error ''vehicle_year'' ''Vehicle year is too old'' r)
             else if year > current_year e + 1
             then ok (add_error ''vehicle_year'' ''Vehicle year cannot be in the future'' r)
             else if year < current_year e - 50
             then ok (add_warning ''vehicle_year'' ''Vehicle is very old (classic car?)'' r)
             else ok r)
      else ok r)"

text \<open>The simplified check of \<^verbatim>\<open>_validate_vin_checksum\<close> on a string.\<close>

definition validate_vin_checksum :: "string \<Rightarrow> bool" where
  "validate_vin_checksum vin =
     (if length vin \<noteq> 17 then False
      else if list_ex (\<lambda>c. upper_char c \<in> set ''IOQ'') vin then False
      else True)"

definition vin_class :: "char \<Rightarrow> bool" where
  "vin_class c = (c \<in> set ''ABCDEFGHJKLMNPRSTUVWXYZ0123456789'')"

definition validate_vehicle_vin :: "claim_data \<Rightarrow> stage" where
  "validate_vehicle_vin cd r =
     (let vehicle_vin = dget cd ''vehicle_vin'' in
      if truthy vehicle_vin then
        (case py_len vehicle_vin of
           Inl x \<Rightarrow> raise x r
         | Inr n \<Rightarrow>
             if n \<noteq> 17 then ok (add_error ''vehicle_vin'' ''VIN must be exactly 17 characters'' r)
             else (case vehicle_vin of
                     PStr vin \<Rightarrow>
                       if \<not> re_match_count vin_class 17 (str_upper vin)
                       then ok (add_error ''vehicle_vin'' ''VIN contains invalid characters'' r)
                       else if \<not> validate_vin_checksum vin
                       then ok (add_warning ''vehicle_vin'' ''VIN checksum validation failed'' r)
                       else ok r
                   | _ \<Rightarrow> raise (no_attribute vehicle_vin ''upper'') r))
      else ok r)"

definition validate_license_plate :: "claim_data \<Rightarrow> stage" where
  "validate_license_plate cd r =
     (let license_plate = dget cd ''license_plate'' in
      if truthy license_plate then
        (case py_len license_plate of
           Inl x \<Rightarrow> raise x r
         | Inr n \<Rightarrow>
             if n < 2 \<or> n > 10 then ok (add_warning ''license_plate'' ''License plate length is unusual'' r)
             else ok r)
      else ok r)"

definition validate_vehicle_information :: "env \<Rightarrow> claim_data \<Rightarrow> stage" where
  "validate_vehicle_information e cd =
     run_all [validate_vehicle_year e cd, validate_vehicle_vin cd, validate_license_plate cd]"

subsection \<open>Financial information\<close>

definition validate_claim_amount :: "env \<Rightarrow> claim_data \<Rightarrow> stage" where
  "validate_claim_amount e cd r =
     (let claim_amount = dget cd ''claim_amount'' in
      if claim_amount \<noteq> PNone then
        (case py_float e claim_amount of
           None \<Rightarrow> ok (add_error ''claim_amount'' ''Invalid claim amount format'' r)
         | Some amount \<Rightarrow>
             if amount \<le> 0 then ok (add_error ''claim_amount'' ''Claim amount must be positive'' r)
             else if amount > max_claim_amount e
             then ok (add_error ''claim_amount''
                    (''Claim amount exceeds maximum allowed ('' @ fmt_float e [] (max_claim_amount e) @ '')'') r)
             else if amount > manual_review_threshold e
             then ok (add_warning ''claim_amount'' ''High value claim requires manual review'' r)
             else ok r)
      else ok r)"

definition validate_estimated_damage :: "env \<Rightarrow> claim_data \<Rightarrow> stage" where
  "validate_estimated_damage e cd r =
     (let estimated_damage = dget cd ''estimated_damage_amount'';
          claim_amount_val = dget cd ''claim_amount'' in
      if estimated_damage \<noteq> PNone \<and> claim_amount_val \<noteq> PNone then
        (case py_float e estimated_damage of
           None \<Rightarrow> ok (add_error ''estimated_damage_amount'' ''Invalid estimated damage amount format'' r)
         | Some est_val \<Rightarrow>
             (case py_float e claim_amount_val of
                None \<Rightarrow> ok (add_error ''estimated_damage_amount'' ''Invalid estimated damage amount format'' r)
              | Some claim_val \<Rightarrow>
                  if est_val \<le> 0
                  then ok (add_error ''estimated_damage_amount'' ''Estimated damage must be positive'' r)
                  else (case py_truediv (abs (est_val - claim_val)) (max est_val claim_val) of
                          Inl x \<Rightarrow> raise x r
                        | Inr discrepancy \<Rightarrow>
                            if discrepancy > 5 / 10
                            then ok (add_warning ''amount_consistency''
                                   ''Large discrepancy between estimated damage and claim amount'' r)
                            else ok r)))
      else ok r)"

definition validate_financial_information :: "env \<Rightarrow> claim_data \<Rightarrow> stage" where
  "validate_financial_information e cd =
     run_all [validate_claim_amount e cd, validate_estimated_damage e cd]"

subsection \<open>Business rules\<close>

text \<open>Rule 3 parses with \<^verbatim>\<open>%Y-%m-%d\<close> only; its bare \<^verbatim>\<open>except\<close> swallows a failed parse.\<close>

definition rule_weekend_incident :: "claim_data \<Rightarrow> stage" where
  "rule_weekend_incident cd r =
     (let incident_date = dget cd ''incident_date'' in
      if truthy incident_date then
        (case incident_date of
           PStr s \<Rightarrow>
             (case strptime s fmt_iso of
                None \<Rightarrow> ok r
              | Some parsed_date \<Rightarrow>
                  if weekday parsed_date \<ge> 5
                  then ok (add_warning ''incident_timing'' ''Incident occurred on weekend'' r)
                  else ok r)
         | _ \<Rightarrow> ok r)
      else ok r)"

definition high_risk_keywords :: "string list" where
  "high_risk_keywords = [''parking lot'', ''mall'', ''downtown'', ''highway'', ''construction'']"

definition rule_high_risk_location :: "claim_data \<Rightarrow> stage" where
  "rule_high_risk_location cd r =
     (let incident_location = dget cd ''incident_location'' in
      if truthy incident_location then
        (case py_lower incident_location of
           Inl x \<Rightarrow> raise x r
         | Inr location_lower \<Rightarrow>
             (case find (\<lambda>keyword. py_in keyword location_lower) high_risk_keywords of
                Some keyword \<Rightarrow>
                  ok (add_warning ''location_risk'' (''Incident in potentially high-risk location: '' @ keyword) r)
              | None \<Rightarrow> ok r))
      else ok r)"

definition validate_business_rules :: "claim_data \<Rightarrow> stage" where
  "validate_business_rules cd = run_all [rule_weekend_incident cd, rule_high_risk_location cd]"

subsection \<open>Fraud indicators\<close>

definition indicator_high_value_claim :: "env \<Rightarrow> claim_data \<Rightarrow> stage" where
  "indicator_high_value_claim e cd r =
     (let claim_amount = dget cd ''claim_amount'' in
      if truthy claim_amount then
        (case py_float e claim_amount of
           None \<Rightarrow> ok r
         | Some amount \<Rightarrow>
             if amount > 50000
             then ok (add_fraud_indicator ''high_value_claim'' ''medium''
                    (''Claim amount of $'' @ fmt_float e '',.2f'' amount @ '' is unusually high'') r)
             else ok r)
      else ok r)"

definition indicator_name_mismatch :: "claim_data \<Rightarrow> stage" where
  "indicator_name_mismatch cd r =
     (let claimant_name = dget_default cd ''claimant_name'';
          policy_holder = dget_default cd ''policy_holder_name'' in
      if truthy claimant_name \<and> truthy policy_holder then
        (case py_lower claimant_name of
           Inl x \<Rightarrow> raise x r
         | Inr a \<Rightarrow>
             (case py_lower policy_holder of
                Inl x \<Rightarrow> raise x r
              | Inr b \<Rightarrow>
                  if a \<noteq> b
                  then ok (add_fraud_indicator ''name_mismatch'' ''low''
                         ''Claimant name differs from policy holder name'' r)
                  else ok r))
      else ok r)"

definition vague_keywords :: "string list" where
  "vague_keywords = [''suddenly'', ''out of nowhere'', ''don't remember'', ''not sure'']"

definition indicator_vague_description :: "claim_data \<Rightarrow> stage" where
  "indicator_vague_description cd r =
     (let incident_description = dget_default cd ''incident_description'' in
      if truthy incident_description then
        (case py_lower incident_description of
           Inl x \<Rightarrow> raise x r
         | Inr description_lower \<Rightarrow>
             (case find (\<lambda>keyword. py_in keyword description_lower) vague_keywords of
                Some keyword \<Rightarrow>
                  ok (add_fraud_indicator ''vague_description'' ''low''
                    (''Incident description contains vague language: '' @ [CHR 0x27] @ keyword @ [CHR 0x27]) r)
              | None \<Rightarrow> ok r))
      else ok r)"

definition round_number_details :: "env \<Rightarrow> real \<Rightarrow> string" where
  "round_number_details e amount = ''Claim amount is a round number: $'' @ fmt_float e '',.0f'' amount"

definition indicator_round_number :: "env \<Rightarrow> claim_data \<Rightarrow> stage" where
  "indicator_round_number e cd r =
     (let claim_amount = dget cd ''claim_amount'' in
      if truthy claim_amount then
        (case py_float e claim_amount of
           None \<Rightarrow> ok r
         | Some amount \<Rightarrow>
             if py_fmod amount 1000 = 0 \<and> amount \<ge> 5000
             then ok (add_fraud_indicator ''round_number'' ''low'' (round_number_details e amount) r)
             else ok r)
      else ok r)"

definition critical_fields :: "string list" where
  "critical_fields = [''policy_number'', ''incident_location'', ''vehicle_vin'']"

definition indicator_missing_information :: "claim_data \<Rightarrow> stage" where
  "indicator_missing_information cd r =
     (let missing_critical = filter (\<lambda>field. \<not> truthy (dget cd field)) critical_fields in
      if length missing_critical \<ge> 2
      then ok (add_fraud_indicator ''missing_information'' ''medium''
             (''Multiple critical fields missing: '' @ join '', '' missing_critical) r)
      else ok r)"

definition detect_fraud_indicators :: "env \<Rightarrow> claim_data \<Rightarrow> stage" where
  "detect_fraud_indicators e cd =
     run_all [indicator_high_value_claim e cd, indicator_name_mismatch cd,
              indicator_vague_description cd, indicator_round_number e cd,
              indicator_missing_information cd]"

subsection \<open>Risk assessment\<close>

text \<open>
  The risk assessment threads the local list \<^verbatim>\<open>risk_factors\<close> beside the accumulator; none
  of its blocks can raise.
\<close>

type_synonym risk_state = "string list \<times> ValidationResult"

definition risk_high_value :: "env \<Rightarrow> claim_data \<Rightarrow> risk_state \<Rightarrow> risk_state" where
  "risk_high_value e cd st =
     (let claim_amount = dget cd ''claim_amount'' in
      if truthy claim_amount then
        (case py_float e claim_amount of
           None \<Rightarrow> st
         | Some amount \<Rightarrow>
             if amount > manual_review_threshold e
             then (fst st @ [''high_value''], add_risk (3 / 10) (snd st))
             else st)
      else st)"

text \<open>\<open>str_filled v\<close> is \<^verbatim>\<open>v is not None and str(v).strip()\<close>.\<close>

definition str_filled :: "pyval \<Rightarrow> bool" where
  "str_filled v = (case v of PNone \<Rightarrow> False | PStr s \<Rightarrow> py_strip s \<noteq> [] | _ \<Rightarrow> True)"

definition completeness :: "claim_data \<Rightarrow> real" where
  "completeness cd =
     (let total_fields = length cd;
          filled_fields = length (filter (\<lambda>kv. str_filled (snd kv)) cd) in
      if total_fields > 0 then real filled_fields / real total_fields else 0)"

definition risk_incomplete :: "claim_data \<Rightarrow> risk_state \<Rightarrow> risk_state" where
  "risk_incomplete cd st =
     (if completeness cd < 5 / 10
      then (fst st @ [''incomplete_information''], add_risk (2 / 10) (snd st))
      else st)"

definition risk_new_vehicle :: "env \<Rightarrow> claim_data \<Rightarrow> risk_state \<Rightarrow> risk_state" where
  "risk_new_vehicle e cd st =
     (let vehicle_year = dget cd ''vehicle_year'' in
      if truthy vehicle_year then
        (case py_int e vehicle_year of
           None \<Rightarrow> st
         | Some year \<Rightarrow>
             if year \<ge> current_year e - 2
             then (fst st @ [''new_vehicle''], add_risk (1 / 10) (snd st))
             else st)
      else st)"

definition risk_weekend_incident :: "claim_data \<Rightarrow> risk_state \<Rightarrow> risk_state" where
  "risk_weekend_incident cd st =
     (let incident_date = dget cd ''incident_date'' in
      if truthy incident_date then
        (case incident_date of
           PStr s \<Rightarrow>
             (case strptime s fmt_iso of
                None \<Rightarrow> st
              | Some parsed_date \<Rightarrow>
                  if weekday parsed_date \<ge> 5
                  then (fst st @ [''weekend_incident''], add_risk (5 / 100) (snd st))
                  else st)
         | _ \<Rightarrow> st)
      else st)"

definition get_recommended_action :: "real \<Rightarrow> string" where
  "get_recommended_action score =
     (if score > 8 / 10 then ''Reject or require extensive documentation''
      else if score > 6 / 10 then ''Require manual review and additional verification''
      else if score > 3 / 10 then ''Standard processing with monitoring''
      else ''Standard processing'')"

definition overall_risk :: "real \<Rightarrow> string" where
  "overall_risk score = (if score > 7 / 10 then ''high'' else if score > 3 / 10 then ''medium'' else ''low'')"

definition risk_factors_of :: "env \<Rightarrow> claim_data \<Rightarrow> ValidationResult \<Rightarrow> risk_state" where
  "risk_factors_of e cd r =
     risk_weekend_incident cd (risk_new_vehicle e cd (risk_incomplete cd (risk_high_value e cd ([], r))))"

definition assess_risk :: "env \<Rightarrow> claim_data \<Rightarrow> stage" where
  "assess_risk e cd r =
     (let st = risk_factors_of e cd r;
          risk_factors = fst st;
          capped = cap_risk (snd st) in
      ok (add_correction ''risk_assessment'' PNone
            (RiskAssessment risk_factors (overall_risk (risk_score capped))
               (get_recommended_action (risk_score capped))) capped))"

section \<open>\<^verbatim>\<open>validate_claim\<close>\<close>

definition run_stages :: "env \<Rightarrow> claim_data \<Rightarrow> stage" where
  "run_stages e cd =
     run_all [validate_required_fields cd, validate_personal_information e cd,
              validate_policy_information cd, validate_incident_information e cd,
              validate_vehicle_information e cd, validate_financial_information e cd,
              validate_business_rules cd, detect_fraud_indicators e cd, assess_risk e cd]"

text \<open>
  The \<^verbatim>\<open>try\<close> around the nine calls: an exception of any of them is turned into one error
  on the accumulator as that call left it.
\<close>

definition validate_claim :: "env \<Rightarrow> claim_data \<Rightarrow> ValidationResult" where
  "validate_claim e cd =
     (case run_stages e cd ValidationResult_init of
        (r, None) \<Rightarrow> r
      | (r, Some x) \<Rightarrow> add_error ''validation_process'' (''Validation failed: '' @ exn_str x) r)"

text \<open>
  An environment for concrete runs: the default settings of \<^verbatim>\<open>config/settings.py\<close>, a fixed
  day, and library entries that the runs below never reach (they carry no e-mail address, no
  phone number and no number written as a string).
\<close>

definition sample_env :: env where
  "sample_env = \<lparr>max_claim_amount = 100000, auto_approve_threshold = 1000,
     manual_review_threshold = 50000, today = (2025, 6, 2),
     validate_email = (\<lambda>v. EmailNotValidError ''The email address is not valid.''),
     phone_parse = (\<lambda>v. NumberParseException),
     float_of_str = (\<lambda>s. None), int_of_str = (\<lambda>s. None),
     fmt_float = (\<lambda>spec x. ''?'')\<rparr>"

section \<open>Runs of accumulator operations\<close>

text \<open>
  Everything a sub-validator does to the accumulator is one of six operations. \<open>apply_ops\<close>
  runs a sequence of them; \<open>evolves r r'\<close> says that \<open>r'\<close> is reached from \<open>r\<close> by
  operations as the sub-validators use them: error fields other than
  \<^verbatim>\<open>validation_process\<close>, which only \<^verbatim>\<open>validate_claim\<close> itself writes, and risk
  contributions that are not negative.
\<close>

datatype acc_op =
    AddError string string
  | AddWarning string string
  | AddCorrection string pyval corrected_value
  | AddFraudIndicator string string string
  | AddRisk real
  | CapRisk

fun apply_op :: "acc_op \<Rightarrow> ValidationResult \<Rightarrow> ValidationResult" where
  "apply_op (AddError f m) r = add_error f m r"
| "apply_op (AddWarning f m) r = add_warning f m r"
| "apply_op (AddCorrection f a b) r = add_correction f a b r"
| "apply_op (AddFraudIndicator i s d) r = add_fraud_indicator i s d r"
| "apply_op (AddRisk c) r = add_risk c r"
| "apply_op CapRisk r = cap_risk r"

fun apply_ops :: "acc_op list \<Rightarrow> ValidationResult \<Rightarrow> ValidationResult" where
  "apply_ops [] r = r"
| "apply_ops (x # xs) r = apply_ops xs (apply_op x r)"

fun nonneg_op :: "acc_op \<Rightarrow> bool" where
  "nonneg_op (AddRisk c) = (0 \<le> c)"
| "nonneg_op x = True"

inductive evolves :: "ValidationResult \<Rightarrow> ValidationResult \<Rightarrow> bool" where
  ev_refl: "evolves r r"
| ev_error: "evolves r r' \<Longrightarrow> f \<noteq> ''validation_process'' \<Longrightarrow> evolves r (add_error f m r')"
| ev_warning: "evolves r r' \<Longrightarrow> evolves r (add_warning f m r')"
| ev_correction: "evolves r r' \<Longrightarrow> evolves r (add_correction f a b r')"
| ev_fraud: "evolves r r' \<Longrightarrow> evolves r (add_fraud_indicator i s d r')"
| ev_risk: "evolves r r' \<Longrightarrow> 0 \<le> c \<Longrightarrow> evolves r (add_risk c r')"
| ev_cap: "evolves r r' \<Longrightarrow> evolves r (cap_risk r')"

definition stage_ok :: "stage \<Rightarrow> bool" where
  "stage_ok f = (\<forall>r. evolves r (fst (f r)))"

definition no_process_error :: "(string \<times> string) list \<Rightarrow> bool" where
  "no_process_error es = list_all (\<lambda>p. fst p \<noteq> ''validation_process'') es"

section \<open>Sample claims\<close>

text \<open>The valid minimal claim, and variants of it that differ in one field.\<close>

definition minimal_claim :: claim_data where
  "minimal_claim = [(''claimant_name'', PStr ''John Doe''), (''incident_date'', PStr ''2024-01-15''),
     (''claim_amount'', PFloat 500), (''incident_description'', PStr ''Rear-ended at a light'')]"

definition with_field :: "string \<Rightarrow> pyval \<Rightarrow> claim_data \<Rightarrow> claim_data" where
  "with_field k v cd = (k, v) # filter (\<lambda>kv. fst kv \<noteq> k) cd"

definition process_errors :: "ValidationResult \<Rightarrow> (string \<times> string) list" where
  "process_errors r = filter (\<lambda>p. fst p = ''validation_process'') (errors r)"

text \<open>Entries on one field that a stage has appended to a list of errors or warnings.\<close>

definition added_on :: "string \<Rightarrow> (string \<times> string) list \<Rightarrow> (string \<times> string) list \<Rightarrow> (string \<times> string) list" where
  "added_on field before after = filter (\<lambda>p. fst p = field) (drop (length before) after)"

definition round_number_entries :: "ValidationResult \<Rightarrow> (string \<times> string \<times> string) list" where
  "round_number_entries r = filter (\<lambda>p. fst p = ''round_number'') (fraud_indicators r)"

text \<open>A VIN that contains one of the letters I, O, Q in either case, and the error it gets.\<close>

definition has_ioq :: "string \<Rightarrow> bool" where
  "has_ioq s = list_ex (\<lambda>c. c \<in> set ''IOQioq'') s"

definition vin_error_message :: "string \<Rightarrow> string" where
  "vin_error_message s = (if length s \<noteq> 17 then ''VIN must be exactly 17 characters''
     else ''VIN contains invalid characters'')"

section \<open>Every sub-validator is a run of accumulator operations\<close>

lemma evolves_trans: "evolves b c \<Longrightarrow> evolves a b \<Longrightarrow> evolves a c"
  by (induction rule: evolves.induct) (auto intro: evolves.intros)

lemma evolves_valid:
  "evolves r r' \<Longrightarrow> is_valid r = (errors r = []) \<Longrightarrow> is_valid r' = (errors r' = [])"
  by (induction rule: evolves.induct)
     (simp_all add: add_error_def add_warning_def add_correction_def add_fraud_indicator_def
        add_risk_def cap_risk_def)

lemma severity_scores_nonneg: "0 \<le> severity_scores s"
  by (simp add: severity_scores_def)

lemma evolves_risk: "evolves r r' \<Longrightarrow> 0 \<le> risk_score r \<Longrightarrow> 0 \<le> risk_score r'"
  by (induction rule: evolves.induct)
     (simp_all add: add_error_def add_warning_def add_correction_def add_fraud_indicator_def
        add_risk_def cap_risk_def severity_scores_nonneg)

lemma evolves_errors:
  "evolves r r' \<Longrightarrow> \<exists>es. errors r' = errors r @ es \<and> no_process_error es"
  by (induction rule: evolves.induct)
     (auto simp: add_error_def add_warning_def add_correction_def add_fraud_indicator_def
        add_risk_def cap_risk_def no_process_error_def)

lemma stage_okI: "(\<And>r. evolves r (fst (f r))) \<Longrightarrow> stage_ok f"
  by (simp add: stage_ok_def)

lemma stage_okD: "stage_ok f \<Longrightarrow> evolves r (fst (f r))"
  by (simp add: stage_ok_def)

lemma run_all_ok: "list_all stage_ok fs \<Longrightarrow> stage_ok (run_all fs)"
proof (induction fs)
  case Nil
  show ?case by (rule stage_okI) (simp add: ev_refl)
next
  case (Cons f fs)
  then have f: "stage_ok f" and fs: "stage_ok (run_all fs)" by simp_all
  show ?case
  proof (rule stage_okI)
    fix r
    obtain r1 x where fr: "f r = (r1, x)" by (cases "f r")
    have e1: "evolves r r1" using stage_okD [OF f, of r] fr by simp
    show "evolves r (fst (run_all (f # fs) r))"
    proof (cases x)
      case None
      then show ?thesis using fr e1 stage_okD [OF fs, of r1] by (simp add: evolves_trans)
    next
      case (Some a)
      then show ?thesis using fr e1 by simp
    qed
  qed
qed

lemma check_required_evolves:
  "''validation_process'' \<notin> set fs \<Longrightarrow> evolves r0 r \<Longrightarrow> evolves r0 (check_required cd fs r)"
proof (induction fs arbitrary: r)
  case Nil
  then show ?case by simp
next
  case (Cons f fs)
  then have f: "f \<noteq> ''validation_process''" and fs: "''validation_process'' \<notin> set fs"
    by auto
  have "evolves r0 (if missing_or_empty (dget cd f) then add_error f (required_message f) r else r)"
    using Cons.prems(2) f by (simp add: ev_error)
  then show ?case using Cons.IH [OF fs] by simp
qed

lemma required_fields_no_process: "''validation_process'' \<notin> set required_fields"
  by (simp add: required_fields_def)

lemma validate_required_fields_ok: "stage_ok (validate_required_fields cd)"
proof (rule stage_okI)
  fix r
  have "evolves r (check_required cd required_fields r)"
    by (rule check_required_evolves [OF required_fields_no_process ev_refl])
  then show "evolves r (fst (validate_required_fields cd r))"
    by (simp add: validate_required_fields_def ok_def)
qed

lemmas stage_simps = ok_def raise_def Let_def
lemmas ev = evolves.intros

lemma validate_claimant_name_ok: "stage_ok (validate_claimant_name cd)"
  by (rule stage_okI) (auto simp: validate_claimant_name_def stage_simps intro!: ev split: sum.splits)

lemma validate_claimant_email_ok: "stage_ok (validate_claimant_email e cd)"
  by (rule stage_okI) (auto simp: validate_claimant_email_def stage_simps intro!: ev split: email_outcome.splits)

lemma validate_claimant_phone_ok: "stage_ok (validate_claimant_phone e cd)"
  by (rule stage_okI) (auto simp: validate_claimant_phone_def stage_simps intro!: ev split: phone_outcome.splits)

lemma validate_personal_information_ok: "stage_ok (validate_personal_information e cd)"
  unfolding validate_personal_information_def
  by (rule run_all_ok)
     (simp add: validate_claimant_name_ok validate_claimant_email_ok validate_claimant_phone_ok)

lemma validate_policy_number_ok: "stage_ok (validate_policy_number cd)"
  by (rule stage_okI) (auto simp: validate_policy_number_def stage_simps intro!: ev split: sum.splits)

lemma validate_insurance_company_ok: "stage_ok (validate_insurance_company cd)"
  by (rule stage_okI) (auto simp: validate_insurance_company_def stage_simps intro!: ev split: sum.splits)

lemma validate_policy_information_ok: "stage_ok (validate_policy_information cd)"
  unfolding validate_policy_information_def
  by (rule run_all_ok) (simp add: validate_policy_number_ok validate_insurance_company_ok)

lemma suggest_standard_format_evolves:
  "evolves r0 r \<Longrightarrow> evolves r0 (suggest_standard_format s d r)"
  by (auto simp: suggest_standard_format_def Let_def intro: ev)

lemma incident_date_body_evolves: "evolves r (fst (incident_date_body e s r))"
  by (auto simp: incident_date_body_def stage_simps intro!: suggest_standard_format_evolves ev
      split: option.splits)

lemma validate_incident_date_ok: "stage_ok (validate_incident_date e cd)"
proof (rule stage_okI)
  fix r
  show "evolves r (fst (validate_incident_date e cd r))"
  proof (cases "dget cd ''incident_date''")
    case (PStr s)
    obtain r1 x where b: "incident_date_body e s r = (r1, x)" by (cases "incident_date_body e s r")
    have "evolves r r1" using incident_date_body_evolves [of r e s] b by simp
    then show ?thesis using PStr b
      by (cases x) (simp_all add: validate_incident_date_def stage_simps ev_error ev_refl)
  qed (simp_all add: validate_incident_date_def stage_simps ev_refl)
qed

lemma validate_incident_description_ok: "stage_ok (validate_incident_description cd)"
  by (rule stage_okI) (auto simp: validate_incident_description_def stage_simps intro!: ev split: sum.splits)

lemma validate_incident_information_ok: "stage_ok (validate_incident_information e cd)"
  unfolding validate_incident_information_def
  by (rule run_all_ok) (simp add: validate_incident_date_ok validate_incident_description_ok)


lemma validate_vehicle_year_ok: "stage_ok (validate_vehicle_year e cd)"
  by (rule stage_okI) (auto simp: validate_vehicle_year_def stage_simps intro!: ev split: option.splits)

lemma validate_vehicle_vin_ok: "stage_ok (validate_vehicle_vin cd)"
  by (rule stage_okI)
     (auto simp: validate_vehicle_vin_def stage_simps intro!: ev split: sum.splits pyval.splits)

lemma validate_license_plate_ok: "stage_ok (validate_license_plate cd)"
  by (rule stage_okI) (auto simp: validate_license_plate_def stage_simps intro!: ev split: sum.splits)

lemma validate_vehicle_information_ok: "stage_ok (validate_vehicle_information e cd)"
  unfolding validate_vehicle_information_def
  by (rule run_all_ok)
     (simp add: validate_vehicle_year_ok validate_vehicle_vin_ok validate_license_plate_ok)

lemma validate_claim_amount_ok: "stage_ok (validate_claim_amount e cd)"
  by (rule stage_okI) (auto simp: validate_claim_amount_def stage_simps intro!: ev split: option.splits)

lemma validate_estimated_damage_ok: "stage_ok (validate_estimated_damage e cd)"
  by (rule stage_okI)
     (auto simp: validate_estimated_damage_def stage_simps intro!: ev split: option.splits sum.splits)

lemma validate_financial_information_ok: "stage_ok (validate_financial_information e cd)"
  unfolding validate_financial_information_def
  by (rule run_all_ok) (simp add: validate_claim_amount_ok validate_estimated_damage_ok)

lemma rule_weekend_incident_ok: "stage_ok (rule_weekend_incident cd)"
  by (rule stage_okI)
     (auto simp: rule_weekend_incident_def stage_simps intro!: ev split: option.splits pyval.splits)

lemma rule_high_risk_location_ok: "stage_ok (rule_high_risk_location cd)"
  by (rule stage_okI)
     (auto simp: rule_high_risk_location_def stage_simps intro!: ev split: option.splits sum.splits)

lemma validate_business_rules_ok: "stage_ok (validate_business_rules cd)"
  unfolding validate_business_rules_def
  by (rule run_all_ok) (simp add: rule_weekend_incident_ok rule_high_risk_location_ok)

lemma indicator_high_value_claim_ok: "stage_ok (indicator_high_value_claim e cd)"
  by (rule stage_okI)
     (auto simp: indicator_high_value_claim_def stage_simps intro!: ev split: option.splits)

lemma indicator_name_mismatch_ok: "stage_ok (indicator_name_mismatch cd)"
  by (rule stage_okI)
     (auto simp: indicator_name_mismatch_def stage_simps intro!: ev split: sum.splits)

lemma indicator_vague_description_ok: "stage_ok (indicator_vague_description cd)"
  by (rule stage_okI)
     (auto simp: indicator_vague_description_def stage_simps intro!: ev split: option.splits sum.splits)

lemma indicator_round_number_ok: "stage_ok (indicator_round_number e cd)"
  by (rule stage_okI)
     (auto simp: indicator_round_number_def stage_simps intro!: ev split: option.splits)

lemma indicator_missing_information_ok: "stage_ok (indicator_missing_information cd)"
  by (rule stage_okI)
     (auto simp: indicator_missing_information_def stage_simps intro!: ev)

lemma detect_fraud_indicators_ok: "stage_ok (detect_fraud_indicators e cd)"
  unfolding detect_fraud_indicators_def
  by (rule run_all_ok)
     (simp add: indicator_high_value_claim_ok indicator_name_mismatch_ok
        indicator_vague_description_ok indicator_round_number_ok indicator_missing_information_ok)

lemma risk_high_value_evolves: "evolves r (snd st) \<Longrightarrow> evolves r (snd (risk_high_value e cd st))"
  by (auto simp: risk_high_value_def Let_def intro!: ev_risk split: option.splits)

lemma risk_incomplete_evolves: "evolves r (snd st) \<Longrightarrow> evolves r (snd (risk_incomplete cd st))"
  by (auto simp: risk_incomplete_def Let_def intro!: ev_risk)

lemma risk_new_vehicle_evolves: "evolves r (snd st) \<Longrightarrow> evolves r (snd (risk_new_vehicle e cd st))"
  by (auto simp: risk_new_vehicle_def Let_def intro!: ev_risk split: option.splits)

lemma risk_weekend_incident_evolves: "evolves r (snd st) \<Longrightarrow> evolves r (snd (risk_weekend_incident cd st))"
  by (auto simp: risk_weekend_incident_def Let_def intro!: ev_risk split: option.splits pyval.splits)

lemma risk_factors_of_evolves: "evolves r (snd (risk_factors_of e cd r))"
  unfolding risk_factors_of_def
  by (intro risk_weekend_incident_evolves risk_new_vehicle_evolves risk_incomplete_evolves
        risk_high_value_evolves) (simp add: ev_refl)

lemma assess_risk_ok: "stage_ok (assess_risk e cd)"
  by (rule stage_okI)
     (simp add: assess_risk_def Let_def ok_def ev_correction ev_cap risk_factors_of_evolves)

lemma run_stages_ok: "stage_ok (run_stages e cd)"
  unfolding run_stages_def
  by (rule run_all_ok)
     (simp add: validate_required_fields_ok validate_personal_information_ok
        validate_policy_information_ok validate_incident_information_ok
        validate_vehicle_information_ok validate_financial_information_ok
        validate_business_rules_ok detect_fraud_indicators_ok assess_risk_ok)

lemma run_stages_evolves: "evolves ValidationResult_init (fst (run_stages e cd ValidationResult_init))"
  by (rule stage_okD [OF run_stages_ok])

section \<open>Unfolding sets for concrete runs\<close>

lemmas acc_defs = add_error_def add_warning_def add_correction_def add_fraud_indicator_def
  add_risk_def cap_risk_def

lemmas str_defs = is_lower_def is_upper_def is_digit_def is_space_def upper_char_def lower_char_def
  str_upper_def str_lower_def py_strip_def chomp_def re_match_plus_def re_match_count_def
  re_type_error_def no_attribute_def

lemmas date_defs = is_leap_def days_in_month_def days_before_year_def days_before_month_def
  weekday_def digit_val_def digits_val_def make_date_def fmt_iso_def fmt_mdy_def fmt_dmy_def
  fmt_ymd_slash_def digit_char_def pad2_def pad4_def date_formats_def

lemmas stage_defs = ok_def raise_def Let_def dget_def dget_default_def
  required_fields_def blank_str_def missing_or_empty_def required_message_def
  validate_required_fields_def py_re_match_def name_class_def validate_claimant_name_def
  validate_claimant_email_def validate_claimant_phone_def validate_personal_information_def
  policy_class_def validate_policy_number_def known_insurers_def validate_insurance_company_def
  validate_policy_information_def suggest_standard_format_def incident_date_body_def
  validate_incident_date_def validate_incident_description_def validate_incident_information_def
  validate_vehicle_year_def validate_vin_checksum_def vin_class_def validate_vehicle_vin_def
  validate_license_plate_def validate_vehicle_information_def validate_claim_amount_def
  py_truediv_def py_fmod_def trunc_def current_year_def
  validate_estimated_damage_def validate_financial_information_def rule_weekend_incident_def
  high_risk_keywords_def rule_high_risk_location_def validate_business_rules_def
  indicator_high_value_claim_def indicator_name_mismatch_def vague_keywords_def
  indicator_vague_description_def round_number_details_def indicator_round_number_def
  critical_fields_def indicator_missing_information_def detect_fraud_indicators_def
  risk_high_value_def str_filled_def completeness_def risk_incomplete_def risk_new_vehicle_def
  risk_weekend_incident_def get_recommended_action_def overall_risk_def risk_factors_of_def
  assess_risk_def run_stages_def validate_claim_def ValidationResult_init_def sample_env_def
  minimal_claim_def with_field_def process_errors_def severity_scores_def to_dict_def

lemmas eval_defs = acc_defs str_defs date_defs stage_defs

section \<open>Properties of the validator\<close>

text \<open>
  C1. \<^verbatim>\<open>validate_claim\<close> returns a \<^verbatim>\<open>ValidationResult\<close> for every field map and lets no
  exception out. In the model an exception is a value that only the sub-validators can return;
  \<open>validate_claim\<close> returns the accumulator alone. When the nine calls complete, the result is
  their accumulator and has no error on field \<^verbatim>\<open>validation_process\<close>. When one of them
  raises, the result is the accumulator as that call left it with exactly one more error, on
  field \<^verbatim>\<open>validation_process\<close>, carrying the message of the exception; it is the only
  error on that field.
\<close>

theorem validate_claim_catches_exceptions:
  "(case run_stages e cd ValidationResult_init of
      (r, None) \<Rightarrow> validate_claim e cd = r \<and> process_errors (validate_claim e cd) = []
    | (r, Some x) \<Rightarrow>
        validate_claim e cd =
          r\<lparr>is_valid := False,
            errors := errors r @ [(''validation_process'', ''Validation failed: '' @ exn_str x)]\<rparr>
        \<and> process_errors (validate_claim e cd) =
            [(''validation_process'', ''Validation failed: '' @ exn_str x)])"
proof -
  obtain r x where rs: "run_stages e cd ValidationResult_init = (r, x)"
    by (cases "run_stages e cd ValidationResult_init")
  have "evolves ValidationResult_init r" using run_stages_evolves [of e cd] rs by simp
  from evolves_errors [OF this] have clean: "filter (\<lambda>p. fst p = ''validation_process'') (errors r) = []"
    by (auto simp: ValidationResult_init_def no_process_error_def list_all_iff filter_empty_conv)
  show ?thesis
  proof (cases x)
    case None
    then show ?thesis using rs clean by (simp add: validate_claim_def process_errors_def)
  next
    case (Some a)
    then show ?thesis using rs clean
      by (simp add: validate_claim_def process_errors_def add_error_def)
  qed
qed

theorem validate_claim_catches_exceptions_witness:
  "process_errors (validate_claim sample_env (with_field ''claimant_name'' (PInt 5) minimal_claim)) =
     [(''validation_process'', ''Validation failed: object of type 'int' has no len()'')]"
  using validate_claim_catches_exceptions [of sample_env "with_field ''claimant_name'' (PInt 5) minimal_claim"]
  by (simp add: eval_defs)

lemma apply_ops_risk_nonneg:
  "list_all nonneg_op ops \<Longrightarrow> 0 \<le> risk_score r \<Longrightarrow> 0 \<le> risk_score (apply_ops ops r)"
proof (induction ops arbitrary: r)
  case Nil
  then show ?case by simp
next
  case (Cons x xs)
  then have "0 \<le> risk_score (apply_op x r)"
    by (cases x) (simp_all add: acc_defs severity_scores_nonneg)
  with Cons show ?case by simp
qed

lemma validate_claim_risk_nonneg: "0 \<le> risk_score (validate_claim e cd)"
proof -
  obtain r x where rs: "run_stages e cd ValidationResult_init = (r, x)"
    by (cases "run_stages e cd ValidationResult_init")
  have "evolves ValidationResult_init r" using run_stages_evolves [of e cd] rs by simp
  then have "0 \<le> risk_score r" by (rule evolves_risk) (simp add: ValidationResult_init_def)
  then show ?thesis using rs by (cases x) (simp_all add: validate_claim_def add_error_def)
qed

text \<open>
  C2. The risk score that \<^verbatim>\<open>to_dict\<close> reports lies in [0, 1]: for the outcome of
  \<^verbatim>\<open>validate_claim\<close> on every field map, and for every run of accumulator operations whose
  additive risk contributions are not negative. The score starts at 0, every severity adds a
  non-negative amount, and the read takes the minimum with 1: three indicators of severity
  \<^verbatim>\<open>high\<close> leave a raw score of 1.5, which is read as 1.
\<close>

theorem risk_score_clamped:
  "risk_score ValidationResult_init = 0
   \<and> 0 \<le> severity_scores severity
   \<and> 0 \<le> dict_risk_score (to_dict now (validate_claim e cd))
   \<and> dict_risk_score (to_dict now (validate_claim e cd)) \<le> 1
   \<and> (list_all nonneg_op ops \<longrightarrow>
        0 \<le> dict_risk_score (to_dict now (apply_ops ops ValidationResult_init))
        \<and> dict_risk_score (to_dict now (apply_ops ops ValidationResult_init)) \<le> 1)
   \<and> risk_score (apply_ops [AddFraudIndicator i1 ''high'' d1, AddFraudIndicator i2 ''high'' d2,
          AddFraudIndicator i3 ''high'' d3] ValidationResult_init) = 3 / 2
   \<and> dict_risk_score (to_dict now (apply_ops [AddFraudIndicator i1 ''high'' d1,
          AddFraudIndicator i2 ''high'' d2, AddFraudIndicator i3 ''high'' d3] ValidationResult_init)) = 1"
proof -
  have a: "risk_score ValidationResult_init = 0" by (simp add: ValidationResult_init_def)
  have b: "0 \<le> dict_risk_score (to_dict now (validate_claim e cd))"
    using validate_claim_risk_nonneg [of e cd] by (simp add: to_dict_def)
  have c: "dict_risk_score (to_dict now (validate_claim e cd)) \<le> 1" by (simp add: to_dict_def)
  have d: "list_all nonneg_op ops \<longrightarrow>
        0 \<le> dict_risk_score (to_dict now (apply_ops ops ValidationResult_init))
        \<and> dict_risk_score (to_dict now (apply_ops ops ValidationResult_init)) \<le> 1"
    using apply_ops_risk_nonneg [of ops ValidationResult_init] by (simp add: to_dict_def a)
  have f: "risk_score (apply_ops [AddFraudIndicator i1 ''high'' d1, AddFraudIndicator i2 ''high'' d2,
          AddFraudIndicator i3 ''high'' d3] ValidationResult_init) = 3 / 2"
    by (simp add: add_fraud_indicator_def severity_scores_def ValidationResult_init_def)
  have g: "dict_risk_score (to_dict now (apply_ops [AddFraudIndicator i1 ''high'' d1,
          AddFraudIndicator i2 ''high'' d2, AddFraudIndicator i3 ''high'' d3] ValidationResult_init)) = 1"
    using f by (simp add: to_dict_def)
  show ?thesis using a severity_scores_nonneg b c d f g by blast
qed

theorem risk_score_clamped_witness:
  "list_all nonneg_op [AddRisk (3 / 10), AddFraudIndicator ''high_value_claim'' ''medium'' [], AddRisk (2 / 10),
       AddFraudIndicator ''missing_information'' ''medium'' [], CapRisk, AddRisk (1 / 10)]
   \<and> risk_score (apply_ops [AddRisk (3 / 10), AddFraudIndicator ''high_value_claim'' ''medium'' [], AddRisk (2 / 10),
       AddFraudIndicator ''missing_information'' ''medium'' [], CapRisk, AddRisk (1 / 10)] ValidationResult_init) = 11 / 10
   \<and> 0 \<le> dict_risk_score (to_dict [] (apply_ops [AddRisk (3 / 10), AddFraudIndicator ''high_value_claim'' ''medium'' [], AddRisk (2 / 10),
       AddFraudIndicator ''missing_information'' ''medium'' [], CapRisk, AddRisk (1 / 10)] ValidationResult_init))
   \<and> dict_risk_score (to_dict [] (apply_ops [AddRisk (3 / 10), AddFraudIndicator ''high_value_claim'' ''medium'' [], AddRisk (2 / 10),
       AddFraudIndicator ''missing_information'' ''medium'' [], CapRisk, AddRisk (1 / 10)] ValidationResult_init)) \<le> 1"
  using risk_score_clamped [of "''low''" "[]" sample_env minimal_claim
      "[AddRisk (3 / 10), AddFraudIndicator ''high_value_claim'' ''medium'' [], AddRisk (2 / 10),
       AddFraudIndicator ''missing_information'' ''medium'' [], CapRisk, AddRisk (1 / 10)]"]
  by (simp add: acc_defs severity_scores_def ValidationResult_init_def to_dict_def)

lemma apply_ops_stays_invalid: "\<not> is_valid r \<Longrightarrow> \<not> is_valid (apply_ops ops r)"
proof (induction ops arbitrary: r)
  case Nil
  then show ?case by simp
next
  case (Cons x xs)
  then have "\<not> is_valid (apply_op x r)" by (cases x) (simp_all add: acc_defs)
  with Cons show ?case by simp
qed

lemma apply_ops_valid_iff:
  "is_valid r = (errors r = []) \<Longrightarrow> is_valid (apply_ops ops r) = (errors (apply_ops ops r) = [])"
proof (induction ops arbitrary: r)
  case Nil
  then show ?case by simp
next
  case (Cons x xs)
  then have "is_valid (apply_op x r) = (errors (apply_op x r) = [])"
    by (cases x) (simp_all add: acc_defs)
  with Cons show ?case by simp
qed

lemma validate_claim_valid_iff: "is_valid (validate_claim e cd) = (errors (validate_claim e cd) = [])"
proof -
  obtain r x where rs: "run_stages e cd ValidationResult_init = (r, x)"
    by (cases "run_stages e cd ValidationResult_init")
  have "evolves ValidationResult_init r" using run_stages_evolves [of e cd] rs by simp
  then have "is_valid r = (errors r = [])" by (rule evolves_valid) (simp add: ValidationResult_init_def)
  then show ?thesis using rs by (cases x) (simp_all add: validate_claim_def add_error_def)
qed

text \<open>
  C3. \<^verbatim>\<open>is_valid\<close> starts true, is false after any \<^verbatim>\<open>add_error\<close>, and is left as it is
  by a warning, a correction and a fraud indicator; once false it stays false through every
  later run of operations. After any run from the fresh accumulator, and in the outcome of
  \<^verbatim>\<open>validate_claim\<close>, it is true exactly when the list of errors is empty.
\<close>

theorem is_valid_iff_no_errors:
  "is_valid ValidationResult_init
   \<and> \<not> is_valid (add_error f m r)
   \<and> is_valid (add_warning f m r) = is_valid r
   \<and> is_valid (add_correction f a b r) = is_valid r
   \<and> is_valid (add_fraud_indicator i s d r) = is_valid r
   \<and> (\<not> is_valid r \<longrightarrow> \<not> is_valid (apply_ops ops r))
   \<and> is_valid (apply_ops ops ValidationResult_init) = (errors (apply_ops ops ValidationResult_init) = [])
   \<and> is_valid (validate_claim e cd) = (errors (validate_claim e cd) = [])"
proof -
  have "is_valid (apply_ops ops ValidationResult_init) = (errors (apply_ops ops ValidationResult_init) = [])"
    by (rule apply_ops_valid_iff) (simp add: ValidationResult_init_def)
  then show ?thesis
    using apply_ops_stays_invalid [of r ops] validate_claim_valid_iff [of e cd]
    by (simp add: acc_defs ValidationResult_init_def)
qed

theorem is_valid_iff_no_errors_witness:
  "\<not> is_valid (add_error ''claim_amount'' ''Claim amount must be positive'' ValidationResult_init)
   \<and> \<not> is_valid (apply_ops [AddWarning ''license_plate'' ''License plate length is unusual'',
          AddCorrection ''incident_date'' (PStr ''01/02/2024'') (Corrected (PStr ''2024-01-02'')),
          AddFraudIndicator ''round_number'' ''low'' [], AddRisk (3 / 10), CapRisk]
        (add_error ''claim_amount'' ''Claim amount must be positive'' ValidationResult_init))"
  using is_valid_iff_no_errors [where f = "''claim_amount''" and m = "''Claim amount must be positive''"
      and r = "add_error ''claim_amount'' ''Claim amount must be positive'' ValidationResult_init"
      and ops = "[AddWarning ''license_plate'' ''License plate length is unusual'',
          AddCorrection ''incident_date'' (PStr ''01/02/2024'') (Corrected (PStr ''2024-01-02'')),
          AddFraudIndicator ''round_number'' ''low'' [], AddRisk (3 / 10), CapRisk]"]
  by (simp add: add_error_def)

lemma py_strip_empty_iff: "(py_strip s = []) = list_all is_space s"
proof -
  have "(dropWhile is_space s = []) = list_all is_space s"
    unfolding dropWhile_eq_Nil_conv list_all_iff ..
  moreover have "(dropWhile is_space (rev (dropWhile is_space s)) = []) = (dropWhile is_space s = [])"
  proof (cases "dropWhile is_space s")
    case Nil
    show ?thesis unfolding Nil by simp
  next
    case (Cons a as)
    then have "\<not> is_space a" using hd_dropWhile [of is_space s] by auto
    moreover have "a \<in> set (rev (dropWhile is_space s))" using Cons by simp
    ultimately show ?thesis using Cons by (auto simp: dropWhile_eq_Nil_conv)
  qed
  ultimately show ?thesis by (simp add: py_strip_def)
qed

lemma missing_or_empty_cases:
  "missing_or_empty v =
     (v = PNone \<or> v = PBool False \<or> v = PInt 0 \<or> v = PFloat 0 \<or> v = PList []
      \<or> (\<exists>s. v = PStr s \<and> list_all is_space s))"
  by (cases v) (auto simp: missing_or_empty_def blank_str_def py_strip_empty_iff)

lemma check_required_errors:
  "errors (check_required cd fs r) =
     errors r @ map (\<lambda>f. (f, required_message f)) (filter (\<lambda>f. missing_or_empty (dget cd f)) fs)"
  by (induction fs arbitrary: r) (simp_all add: add_error_def)

lemma check_required_valid:
  "is_valid (check_required cd fs r) =
     (is_valid r \<and> filter (\<lambda>f. missing_or_empty (dget cd f)) fs = [])"
  by (induction fs arbitrary: r) (simp_all add: add_error_def)

text \<open>
  C4 (amended). The required-field check never raises and adds, in the order claimant_name,
  incident_date, claim_amount, incident_description, one error for exactly those fields whose
  value is falsy or a blank string: absent or \<^verbatim>\<open>None\<close>, \<^verbatim>\<open>False\<close>, the number zero, an
  empty list, or a string that is empty after trimming. A number other than zero, \<^verbatim>\<open>True\<close>
  and a non-empty list pass. \<open>is_valid\<close> stays true exactly when it was true and no field is
  reported.
\<close>

theorem required_fields_by_truthiness:
  "snd (validate_required_fields cd r) = None
   \<and> errors (fst (validate_required_fields cd r)) =
       errors r @ map (\<lambda>f. (f, required_message f))
         (filter (\<lambda>f. missing_or_empty (dget cd f)) required_fields)
   \<and> is_valid (fst (validate_required_fields cd r)) =
       (is_valid r \<and> filter (\<lambda>f. missing_or_empty (dget cd f)) required_fields = [])
   \<and> required_fields = [''claimant_name'', ''incident_date'', ''claim_amount'', ''incident_description'']
   \<and> missing_or_empty v =
       (v = PNone \<or> v = PBool False \<or> v = PInt 0 \<or> v = PFloat 0 \<or> v = PList []
        \<or> (\<exists>s. v = PStr s \<and> list_all is_space s))
   \<and> dget cd k = (case map_of cd k of None \<Rightarrow> PNone | Some x \<Rightarrow> x)"
proof -
  have a: "snd (validate_required_fields cd r) = None"
    by (simp add: validate_required_fields_def ok_def)
  have b: "errors (fst (validate_required_fields cd r)) =
       errors r @ map (\<lambda>f. (f, required_message f))
         (filter (\<lambda>f. missing_or_empty (dget cd f)) required_fields)"
    by (simp only: validate_required_fields_def ok_def fst_conv check_required_errors)
  have c: "is_valid (fst (validate_required_fields cd r)) =
       (is_valid r \<and> filter (\<lambda>f. missing_or_empty (dget cd f)) required_fields = [])"
    by (simp only: validate_required_fields_def ok_def fst_conv check_required_valid)
  have d: "dget cd k = (case map_of cd k of None \<Rightarrow> PNone | Some x \<Rightarrow> x)"
    by (simp add: dget_def)
  show ?thesis using a b c d required_fields_def missing_or_empty_cases [of v] by blast
qed

theorem required_fields_by_truthiness_witness:
  "errors (fst (validate_required_fields
      [(''claimant_name'', PStr ''   ''), (''incident_date'', PStr ''2024-01-15''),
       (''claim_amount'', PInt 7), (''incident_description'', PList [])] ValidationResult_init)) =
     [(''claimant_name'', ''Required field 'claimant_name' is missing or empty''),
      (''incident_description'', ''Required field 'incident_description' is missing or empty'')]
   \<and> \<not> is_valid (fst (validate_required_fields
      [(''claimant_name'', PStr ''   ''), (''incident_date'', PStr ''2024-01-15''),
       (''claim_amount'', PInt 7), (''incident_description'', PList [])] ValidationResult_init))"
  using required_fields_by_truthiness [of
      "[(''claimant_name'', PStr ''   ''), (''incident_date'', PStr ''2024-01-15''),
        (''claim_amount'', PInt 7), (''incident_description'', PList [])]" ValidationResult_init
      "PInt 7" "''claim_amount''"]
  by (simp add: missing_or_empty_def blank_str_def py_strip_def is_space_def dget_def
      required_message_def required_fields_def ValidationResult_init_def)

text \<open>
  C4 as stated fails: the claim amount 0 is present and is not text, and the required-field
  check reports it as missing or empty.
\<close>

theorem required_field_zero_amount_counterexample:
  "map_of (with_field ''claim_amount'' (PInt 0) minimal_claim) ''claim_amount'' = Some (PInt 0)
   \<and> \<not> is_str (PInt 0)
   \<and> errors (fst (validate_required_fields (with_field ''claim_amount'' (PInt 0) minimal_claim)
        ValidationResult_init)) =
       [(''claim_amount'', ''Required field 'claim_amount' is missing or empty'')]
   \<and> \<not> is_valid (fst (validate_required_fields (with_field ''claim_amount'' (PInt 0) minimal_claim)
        ValidationResult_init))"
  by (simp add: with_field_def minimal_claim_def validate_required_fields_def ok_def required_fields_def
      missing_or_empty_def blank_str_def dget_def add_error_def ValidationResult_init_def
      required_message_def py_strip_def is_space_def)

text \<open>
  C5. Weekend incidents. The business rule and the risk assessment parse the incident date
  with \<^verbatim>\<open>%Y-%m-%d\<close> alone. The string 01/04/2025, which the incident stage accepts as
  Saturday 4 January 2025, therefore gets neither the weekend warning nor the risk factor
  \<^verbatim>\<open>weekend_incident\<close>; the same day written 2025-01-04 gets both.
\<close>

theorem weekend_checks_miss_other_formats:
  "first_parse ''01/04/2025'' date_formats = Some (2025, 1, 4)
   \<and> weekday (2025, 1, 4) = 5
   \<and> strptime ''01/04/2025'' fmt_iso = None
   \<and> errors (validate_claim sample_env (with_field ''incident_date'' (PStr ''01/04/2025'') minimal_claim)) = []
   \<and> warnings (validate_claim sample_env (with_field ''incident_date'' (PStr ''01/04/2025'') minimal_claim)) = []
   \<and> corrections (validate_claim sample_env (with_field ''incident_date'' (PStr ''01/04/2025'') minimal_claim))
        ''risk_assessment'' = Some (PNone, RiskAssessment [] ''low'' ''Standard processing'')
   \<and> warnings (validate_claim sample_env (with_field ''incident_date'' (PStr ''2025-01-04'') minimal_claim)) =
        [(''incident_timing'', ''Incident occurred on weekend'')]
   \<and> corrections (validate_claim sample_env (with_field ''incident_date'' (PStr ''2025-01-04'') minimal_claim))
        ''risk_assessment'' =
        Some (PNone, RiskAssessment [''weekend_incident''] ''medium'' ''Standard processing with monitoring'')"
  by (simp add: eval_defs)

lemma first_parse_first_match:
  "list_all (\<lambda>g. strptime s g = None) pre \<Longrightarrow> strptime s fmt = Some d \<Longrightarrow>
   first_parse s (pre @ fmt # post) = Some d"
  by (induction pre) simp_all

lemma ambiguous_date_parses:
  "strptime ''01/02/2024'' fmt_iso = None"
  "strptime ''01/02/2024'' fmt_mdy = Some (2024, 1, 2)"
  "strptime ''01/02/2024'' fmt_dmy = Some (2024, 2, 1)"
  "first_parse ''01/02/2024'' date_formats = Some (2024, 1, 2)"
  "strftime_iso (2024, 1, 2) = ''2024-01-02''"
  by (simp_all add: str_defs date_defs)

lemma ambiguous_date_body:
  "snd (incident_date_body e ''01/02/2024'' r) = None
   \<and> corrections (fst (incident_date_body e ''01/02/2024'' r)) ''incident_date'' =
       Some (PStr ''01/02/2024'', Corrected (PStr ''2024-01-02''))"
proof -
  have ord: "toordinal (2024, 1, 2) = 738887" by (simp add: date_defs)
  show ?thesis
    by (simp add: incident_date_body_def suggest_standard_format_def ambiguous_date_parses ord
        ok_def raise_def acc_defs del: toordinal.simps strftime_iso.simps)
qed

lemma validate_incident_description_corrections:
  "corrections (fst (validate_incident_description cd r)) = corrections r"
  by (auto simp: validate_incident_description_def ok_def raise_def Let_def add_warning_def
      split: sum.splits)

text \<open>
  C6. The incident date is parsed by the first format that accepts it, in the order
  \<^verbatim>\<open>%Y-%m-%d\<close>, \<^verbatim>\<open>%m/%d/%Y\<close>, \<^verbatim>\<open>%d/%m/%Y\<close>, \<^verbatim>\<open>%Y/%m/%d\<close>: when every format
  before \<open>fmt\<close> in the list rejects the string and \<open>fmt\<close> gives \<open>d\<close>, the result is \<open>d\<close>.
  The string 01/02/2024 is accepted month-first and day-first; it resolves to 2 January 2024,
  whose standard rendering 2024-01-02 differs from it, so the incident stage records the
  correction, whatever today's date and the rest of the claim are.
\<close>

theorem first_matching_format_wins:
  "date_formats = [fmt_iso, fmt_mdy, fmt_dmy, fmt_ymd_slash]
   \<and> (date_formats = pre @ fmt # post \<and> list_all (\<lambda>g. strptime s g = None) pre
        \<and> strptime s fmt = Some d \<longrightarrow> first_parse s date_formats = Some d)
   \<and> strptime ''01/02/2024'' fmt_iso = None
   \<and> strptime ''01/02/2024'' fmt_mdy = Some (2024, 1, 2)
   \<and> strptime ''01/02/2024'' fmt_dmy = Some (2024, 2, 1)
   \<and> first_parse ''01/02/2024'' date_formats = Some (2024, 1, 2)
   \<and> strftime_iso (2024, 1, 2) = ''2024-01-02''
   \<and> (dget cd ''incident_date'' = PStr ''01/02/2024'' \<longrightarrow>
        snd (validate_incident_date e cd r) = None
        \<and> corrections (fst (validate_incident_date e cd r)) ''incident_date'' =
            Some (PStr ''01/02/2024'', Corrected (PStr ''2024-01-02''))
        \<and> corrections (fst (validate_incident_information e cd r)) ''incident_date'' =
            Some (PStr ''01/02/2024'', Corrected (PStr ''2024-01-02'')))"
proof -
  have gen: "date_formats = pre @ fmt # post \<and> list_all (\<lambda>g. strptime s g = None) pre
        \<and> strptime s fmt = Some d \<longrightarrow> first_parse s date_formats = Some d"
    using first_parse_first_match [of s pre fmt d post] by auto
  have stage: "dget cd ''incident_date'' = PStr ''01/02/2024'' \<longrightarrow>
        snd (validate_incident_date e cd r) = None
        \<and> corrections (fst (validate_incident_date e cd r)) ''incident_date'' =
            Some (PStr ''01/02/2024'', Corrected (PStr ''2024-01-02''))
        \<and> corrections (fst (validate_incident_information e cd r)) ''incident_date'' =
            Some (PStr ''01/02/2024'', Corrected (PStr ''2024-01-02''))"
  proof
    assume d: "dget cd ''incident_date'' = PStr ''01/02/2024''"
    obtain r1 x where b: "incident_date_body e ''01/02/2024'' r = (r1, x)"
      by (cases "incident_date_body e ''01/02/2024'' r")
    from ambiguous_date_body [of e r] b have x: "x = None"
      and c: "corrections r1 ''incident_date'' = Some (PStr ''01/02/2024'', Corrected (PStr ''2024-01-02''))"
      by simp_all
    have v: "validate_incident_date e cd r = (r1, None)"
      using d b x by (simp add: validate_incident_date_def ok_def)
    have "corrections (fst (validate_incident_information e cd r)) = corrections r1"
      using v validate_incident_description_corrections [of cd r1]
      by (cases "validate_incident_description cd r1")
         (simp add: validate_incident_information_def split: option.splits)
    then show "snd (validate_incident_date e cd r) = None
        \<and> corrections (fst (validate_incident_date e cd r)) ''incident_date'' =
            Some (PStr ''01/02/2024'', Corrected (PStr ''2024-01-02''))
        \<and> corrections (fst (validate_incident_information e cd r)) ''incident_date'' =
            Some (PStr ''01/02/2024'', Corrected (PStr ''2024-01-02''))"
      using v c by simp
  qed
  show ?thesis using gen stage ambiguous_date_parses date_formats_def by blast
qed

theorem first_matching_format_wins_witness:
  "date_formats = [fmt_iso] @ fmt_mdy # [fmt_dmy, fmt_ymd_slash]
   \<and> list_all (\<lambda>g. strptime ''03/04/2024'' g = None) [fmt_iso]
   \<and> strptime ''03/04/2024'' fmt_mdy = Some (2024, 3, 4)
   \<and> strptime ''03/04/2024'' fmt_dmy = Some (2024, 4, 3)
   \<and> first_parse ''03/04/2024'' date_formats = Some (2024, 3, 4)
   \<and> dget (with_field ''incident_date'' (PStr ''01/02/2024'') minimal_claim) ''incident_date'' = PStr ''01/02/2024''
   \<and> corrections (fst (validate_incident_information sample_env
          (with_field ''incident_date'' (PStr ''01/02/2024'') minimal_claim) ValidationResult_init)) ''incident_date'' =
        Some (PStr ''01/02/2024'', Corrected (PStr ''2024-01-02''))"
proof -
  have h1: "date_formats = [fmt_iso] @ fmt_mdy # [fmt_dmy, fmt_ymd_slash]"
    by (simp add: date_formats_def)
  have h2: "list_all (\<lambda>g. strptime ''03/04/2024'' g = None) [fmt_iso]"
    by (simp add: str_defs date_defs)
  have h3: "strptime ''03/04/2024'' fmt_mdy = Some (2024, 3, 4)"
    by (simp add: str_defs date_defs)
  have h4: "strptime ''03/04/2024'' fmt_dmy = Some (2024, 4, 3)"
    by (simp add: str_defs date_defs)
  have h5: "dget (with_field ''incident_date'' (PStr ''01/02/2024'') minimal_claim) ''incident_date'' = PStr ''01/02/2024''"
    by (simp add: with_field_def minimal_claim_def dget_def)
  show ?thesis
    using first_matching_format_wins [of "[fmt_iso]" fmt_mdy "[fmt_dmy, fmt_ymd_slash]" "''03/04/2024''"
        "(2024, 3, 4)" "with_field ''incident_date'' (PStr ''01/02/2024'') minimal_claim" sample_env
        ValidationResult_init] h1 h2 h3 h4 h5
    by simp
qed

lemma ioq_not_vin_class: "c \<in> set ''IOQioq'' \<Longrightarrow> \<not> vin_class (upper_char c)"
  by (auto simp: vin_class_def upper_char_def is_lower_def)

lemma has_ioq_no_match:
  assumes "has_ioq s" and "length s = 17"
  shows "\<not> re_match_count vin_class 17 (str_upper s)"
proof -
  from assms(1) obtain c where c: "c \<in> set s" "c \<in> set ''IOQioq''"
    unfolding has_ioq_def list_ex_iff by blast
  then have bad: "upper_char c \<in> set (str_upper s)" "\<not> vin_class (upper_char c)"
    using ioq_not_vin_class by (simp_all add: str_upper_def)
  have len: "length (str_upper s) = 17" using assms(2) by (simp add: str_upper_def)
  have "\<not> list_all vin_class (str_upper s)" using bad by (auto simp: list_all_iff)
  moreover have "length (chomp (str_upper s)) = 17 \<Longrightarrow> chomp (str_upper s) = str_upper s"
    using len by (auto simp: chomp_def split: if_splits)
  ultimately show ?thesis by (auto simp: re_match_count_def)
qed

lemma has_ioq_nonempty: "has_ioq s \<Longrightarrow> s \<noteq> []"
  by (auto simp: has_ioq_def)

lemma validate_vehicle_vin_ioq:
  "dget cd ''vehicle_vin'' = PStr s \<Longrightarrow> has_ioq s \<Longrightarrow>
   validate_vehicle_vin cd r = (add_error ''vehicle_vin'' (vin_error_message s) r, None)"
  using has_ioq_no_match [of s] has_ioq_nonempty [of s]
  by (simp add: validate_vehicle_vin_def ok_def vin_error_message_def)

lemma validate_license_plate_keeps:
  "errors (fst (validate_license_plate cd r)) = errors r"
  "filter (\<lambda>p. fst p = ''vehicle_vin'') (warnings (fst (validate_license_plate cd r))) =
     filter (\<lambda>p. fst p = ''vehicle_vin'') (warnings r)"
  by (auto simp: validate_license_plate_def ok_def raise_def Let_def add_warning_def split: sum.splits)

lemma validate_vehicle_year_keeps:
  "snd (validate_vehicle_year e cd r) = None"
  "filter (\<lambda>p. fst p = ''vehicle_vin'') (warnings (fst (validate_vehicle_year e cd r))) =
     filter (\<lambda>p. fst p = ''vehicle_vin'') (warnings r)"
  by (auto simp: validate_vehicle_year_def ok_def Let_def add_warning_def add_error_def
      split: option.splits)

lemma vehicle_stage_ioq:
  assumes "dget cd ''vehicle_vin'' = PStr s" and "has_ioq s"
  shows "(''vehicle_vin'', vin_error_message s) \<in> set (errors (fst (validate_vehicle_information e cd r)))"
    and "filter (\<lambda>p. fst p = ''vehicle_vin'') (warnings (fst (validate_vehicle_information e cd r))) =
         filter (\<lambda>p. fst p = ''vehicle_vin'') (warnings r)"
proof -
  obtain r1 where y: "validate_vehicle_year e cd r = (r1, None)"
    using validate_vehicle_year_keeps(1) [of e cd r] by (cases "validate_vehicle_year e cd r") simp
  have w1: "filter (\<lambda>p. fst p = ''vehicle_vin'') (warnings r1) = filter (\<lambda>p. fst p = ''vehicle_vin'') (warnings r)"
    using validate_vehicle_year_keeps(2) [of e cd r] y by simp
  let ?r2 = "add_error ''vehicle_vin'' (vin_error_message s) r1"
  have v: "validate_vehicle_vin cd r1 = (?r2, None)"
    by (rule validate_vehicle_vin_ioq [OF assms])
  obtain r3 x where p: "validate_license_plate cd ?r2 = (r3, x)"
    by (cases "validate_license_plate cd ?r2")
  have st: "fst (validate_vehicle_information e cd r) = r3"
    using y v p by (simp add: validate_vehicle_information_def split: option.splits)
  have e3: "errors r3 = errors ?r2" using validate_license_plate_keeps(1) [of cd ?r2] p by simp
  have w3: "filter (\<lambda>p. fst p = ''vehicle_vin'') (warnings r3) = filter (\<lambda>p. fst p = ''vehicle_vin'') (warnings ?r2)"
    using validate_license_plate_keeps(2) [of cd ?r2] p by simp
  show "(''vehicle_vin'', vin_error_message s) \<in> set (errors (fst (validate_vehicle_information e cd r)))"
    using st e3 by (simp add: add_error_def)
  show "filter (\<lambda>p. fst p = ''vehicle_vin'') (warnings (fst (validate_vehicle_information e cd r))) =
         filter (\<lambda>p. fst p = ''vehicle_vin'') (warnings r)"
    using st w3 w1 by (simp add: add_error_def)
qed

lemma evolves_errors_subset: "evolves r r' \<Longrightarrow> set (errors r) \<subseteq> set (errors r')"
  using evolves_errors [of r r'] by auto

lemma validate_claim_keeps_errors:
  "set (errors (fst (run_stages e cd ValidationResult_init))) \<subseteq> set (errors (validate_claim e cd))"
  by (cases "run_stages e cd ValidationResult_init")
     (auto simp: validate_claim_def add_error_def split: option.splits)

lemma run_all_append:
  "run_all (fs @ gs) r =
     (case run_all fs r of (r', None) \<Rightarrow> run_all gs r' | (r', Some x) \<Rightarrow> (r', Some x))"
  by (induction fs arbitrary: r) (auto split: prod.splits option.splits)

lemma later_stages_ok:
  "stage_ok (run_all [validate_financial_information e cd, validate_business_rules cd,
     detect_fraud_indicators e cd, assess_risk e cd])"
  by (rule run_all_ok)
     (simp add: validate_financial_information_ok validate_business_rules_ok
        detect_fraud_indicators_ok assess_risk_ok)

lemma run_stages_split:
  "run_stages e cd =
     run_all ([validate_required_fields cd, validate_personal_information e cd,
               validate_policy_information cd, validate_incident_information e cd]
              @ [validate_vehicle_information e cd]
              @ [validate_financial_information e cd, validate_business_rules cd,
                 detect_fraud_indicators e cd, assess_risk e cd])"
  by (simp add: run_stages_def)

text \<open>
  C7 (amended). For every field map whose \<^verbatim>\<open>vehicle_vin\<close> is a string containing I, O or
  Q in either case, the VIN check adds exactly one error on field \<^verbatim>\<open>vehicle_vin\<close>, a
  length error when the string does not have 17 characters and a character error otherwise,
  and returns without calling the checksum; the vehicle stage keeps that error and adds no
  warning on \<^verbatim>\<open>vehicle_vin\<close>. The outcome of \<^verbatim>\<open>validate_claim\<close> carries the error
  whenever the four stages before the vehicle stage complete without raising.
\<close>

theorem vin_with_ioq_rejected:
  assumes "dget cd ''vehicle_vin'' = PStr s" and "has_ioq s"
  shows "validate_vehicle_vin cd r = (add_error ''vehicle_vin'' (vin_error_message s) r, None)
   \<and> (''vehicle_vin'', vin_error_message s) \<in> set (errors (fst (validate_vehicle_information e cd r)))
   \<and> filter (\<lambda>p. fst p = ''vehicle_vin'') (warnings (fst (validate_vehicle_information e cd r))) =
       filter (\<lambda>p. fst p = ''vehicle_vin'') (warnings r)
   \<and> (snd (run_all [validate_required_fields cd, validate_personal_information e cd,
                    validate_policy_information cd, validate_incident_information e cd]
             ValidationResult_init) = None
       \<longrightarrow> (''vehicle_vin'', vin_error_message s) \<in> set (errors (validate_claim e cd)))"
proof -
  let ?pre = "[validate_required_fields cd, validate_personal_information e cd,
               validate_policy_information cd, validate_incident_information e cd]"
  let ?post = "[validate_financial_information e cd, validate_business_rules cd,
                 detect_fraud_indicators e cd, assess_risk e cd]"
  have whole: "snd (run_all ?pre ValidationResult_init) = None
       \<longrightarrow> (''vehicle_vin'', vin_error_message s) \<in> set (errors (validate_claim e cd))"
  proof
    assume n: "snd (run_all ?pre ValidationResult_init) = None"
    obtain r4 where r4: "run_all ?pre ValidationResult_init = (r4, None)"
      using n by (cases "run_all ?pre ValidationResult_init") simp
    obtain r5 x5 where r5: "validate_vehicle_information e cd r4 = (r5, x5)"
      by (cases "validate_vehicle_information e cd r4")
    have m5: "(''vehicle_vin'', vin_error_message s) \<in> set (errors r5)"
      using vehicle_stage_ioq(1) [OF assms, of e r4] r5 by simp
    have "set (errors r5) \<subseteq> set (errors (fst (run_stages e cd ValidationResult_init)))"
    proof (cases x5)
      case None
      have "evolves r5 (fst (run_all ?post r5))" by (rule stage_okD [OF later_stages_ok])
      moreover have "run_stages e cd ValidationResult_init = run_all ?post r5"
        unfolding run_stages_split run_all_append using r4 r5 None by simp
      ultimately show ?thesis using evolves_errors_subset by simp
    next
      case (Some a)
      have "run_stages e cd ValidationResult_init = (r5, Some a)"
        unfolding run_stages_split run_all_append using r4 r5 Some by simp
      then show ?thesis by simp
    qed
    then show "(''vehicle_vin'', vin_error_message s) \<in> set (errors (validate_claim e cd))"
      using m5 validate_claim_keeps_errors [of e cd] by blast
  qed
  show ?thesis
    using validate_vehicle_vin_ioq [OF assms, of r] vehicle_stage_ioq [OF assms, of e r] whole
    by blast
qed

theorem vin_with_ioq_rejected_witness:
  "dget (with_field ''vehicle_vin'' (PStr ''1HGBH41JXMN10987O'') minimal_claim) ''vehicle_vin'' =
     PStr ''1HGBH41JXMN10987O''
   \<and> has_ioq ''1HGBH41JXMN10987O''
   \<and> (''vehicle_vin'', ''VIN contains invalid characters'') \<in>
       set (errors (validate_claim sample_env
         (with_field ''vehicle_vin'' (PStr ''1HGBH41JXMN10987O'') minimal_claim)))"
proof -
  let ?cd = "with_field ''vehicle_vin'' (PStr ''1HGBH41JXMN10987O'') minimal_claim"
  have h1: "dget ?cd ''vehicle_vin'' = PStr ''1HGBH41JXMN10987O''"
    by (simp add: with_field_def minimal_claim_def dget_def)
  have h2: "has_ioq ''1HGBH41JXMN10987O''" by (simp add: has_ioq_def)
  have h3: "snd (run_all [validate_required_fields ?cd, validate_personal_information sample_env ?cd,
                    validate_policy_information ?cd, validate_incident_information sample_env ?cd]
             ValidationResult_init) = None"
    by (simp add: eval_defs)
  have h4: "vin_error_message ''1HGBH41JXMN10987O'' = ''VIN contains invalid characters''"
    by (simp add: vin_error_message_def)
  show ?thesis
    using vin_with_ioq_rejected [OF h1 h2, of ValidationResult_init sample_env] h1 h2 h3 h4 by simp
qed

text \<open>
  C7 as stated fails: with a policy number that is an int, the policy stage raises on
  \<^verbatim>\<open>len\<close>, the run ends before the vehicle stage, and the outcome has no error on
  \<^verbatim>\<open>vehicle_vin\<close> although the VIN contains the letter O.
\<close>

theorem vin_unchecked_after_raise_counterexample:
  "dget (with_field ''policy_number'' (PInt 123456789)
          (with_field ''vehicle_vin'' (PStr ''1HGBH41JXMN10987O'') minimal_claim)) ''vehicle_vin'' =
     PStr ''1HGBH41JXMN10987O''
   \<and> has_ioq ''1HGBH41JXMN10987O''
   \<and> errors (validate_claim sample_env (with_field ''policy_number'' (PInt 123456789)
          (with_field ''vehicle_vin'' (PStr ''1HGBH41JXMN10987O'') minimal_claim))) =
       [(''validation_process'', ''Validation failed: object of type 'int' has no len()'')]"
  by (simp add: eval_defs has_ioq_def)

lemma validate_claim_amount_exact:
  "validate_claim_amount e cd r =
     (if dget cd ''claim_amount'' = PNone then r
      else (case py_float e (dget cd ''claim_amount'') of
              None \<Rightarrow> add_error ''claim_amount'' ''Invalid claim amount format'' r
            | Some x \<Rightarrow>
                if x \<le> 0 then add_error ''claim_amount'' ''Claim amount must be positive'' r
                else if max_claim_amount e < x
                then add_error ''claim_amount''
                       (''Claim amount exceeds maximum allowed ('' @ fmt_float e [] (max_claim_amount e) @ '')'') r
                else if manual_review_threshold e < x
                then add_warning ''claim_amount'' ''High value claim requires manual review'' r
                else r), None)"
  by (simp add: validate_claim_amount_def ok_def Let_def split: option.splits)

lemma validate_estimated_damage_exact:
  "validate_estimated_damage e cd r =
     (if dget cd ''estimated_damage_amount'' = PNone \<or> dget cd ''claim_amount'' = PNone then r
      else (case py_float e (dget cd ''estimated_damage_amount'') of
              None \<Rightarrow> add_error ''estimated_damage_amount'' ''Invalid estimated damage amount format'' r
            | Some est_val \<Rightarrow>
                (case py_float e (dget cd ''claim_amount'') of
                   None \<Rightarrow> add_error ''estimated_damage_amount'' ''Invalid estimated damage amount format'' r
                 | Some claim_val \<Rightarrow>
                     if est_val \<le> 0
                     then add_error ''estimated_damage_amount'' ''Estimated damage must be positive'' r
                     else if 1 / 2 < abs (est_val - claim_val) / max est_val claim_val
                     then add_warning ''amount_consistency''
                            ''Large discrepancy between estimated damage and claim amount'' r
                     else r)), None)"
  by (auto simp: validate_estimated_damage_def ok_def raise_def Let_def py_truediv_def
      split: option.splits)

lemma filter_drop_single: "\<not> P x \<Longrightarrow> filter P (drop n [x]) = []"
  by (cases n) simp_all

lemma added_on_est:
  "added_on ''claim_amount'' (errors r0) (errors (fst (validate_estimated_damage e cd r))) =
     added_on ''claim_amount'' (errors r0) (errors r)"
  "added_on ''claim_amount'' (warnings r0) (warnings (fst (validate_estimated_damage e cd r))) =
     added_on ''claim_amount'' (warnings r0) (warnings r)"
  by (auto simp: validate_estimated_damage_exact added_on_def add_error_def add_warning_def
      filter_drop_single split: option.splits)

lemma financial_fst:
  "fst (validate_financial_information e cd r) =
     fst (validate_estimated_damage e cd (fst (validate_claim_amount e cd r)))"
  by (simp add: validate_financial_information_def validate_claim_amount_exact
      validate_estimated_damage_exact)

text \<open>
  C8. With the manual-review threshold below the maximum claim amount, for a claim amount
  that is present (not \<^verbatim>\<open>None\<close>) the financial stage adds on field \<^verbatim>\<open>claim_amount\<close>:
  a format error when the value is not a number; for a number \<open>x\<close>, an error when
  \<open>x \<le> 0\<close>, else an error when \<open>x\<close> exceeds the maximum, else only a warning when \<open>x\<close>
  exceeds the threshold; and it adds neither an error nor a warning exactly when
  \<open>0 < x \<le> threshold\<close>.
\<close>

theorem claim_amount_bands:
  assumes "dget cd ''claim_amount'' = v" and "v \<noteq> PNone"
    and "manual_review_threshold e < max_claim_amount e"
  shows "(py_float e v = None \<longrightarrow>
            added_on ''claim_amount'' (errors r) (errors (fst (validate_financial_information e cd r))) =
              [(''claim_amount'', ''Invalid claim amount format'')]
          \<and> added_on ''claim_amount'' (warnings r) (warnings (fst (validate_financial_information e cd r))) = [])
       \<and> (py_float e v = Some x \<longrightarrow>
            added_on ''claim_amount'' (errors r) (errors (fst (validate_financial_information e cd r))) =
              (if x \<le> 0 then [(''claim_amount'', ''Claim amount must be positive'')]
               else if max_claim_amount e < x
               then [(''claim_amount'',
                      ''Claim amount exceeds maximum allowed ('' @ fmt_float e [] (max_claim_amount e) @ '')'')]
               else [])
          \<and> added_on ''claim_amount'' (warnings r) (warnings (fst (validate_financial_information e cd r))) =
              (if 0 < x \<and> x \<le> max_claim_amount e \<and> manual_review_threshold e < x
               then [(''claim_amount'', ''High value claim requires manual review'')] else [])
          \<and> ((added_on ''claim_amount'' (errors r) (errors (fst (validate_financial_information e cd r))) = []
               \<and> added_on ''claim_amount'' (warnings r) (warnings (fst (validate_financial_information e cd r))) = [])
              = (0 < x \<and> x \<le> manual_review_threshold e)))"
proof -
  let ?r1 = "fst (validate_claim_amount e cd r)"
  have E: "added_on ''claim_amount'' (errors r) (errors (fst (validate_financial_information e cd r))) =
      (case py_float e v of
         None \<Rightarrow> [(''claim_amount'', ''Invalid claim amount format'')]
       | Some y \<Rightarrow>
           if y \<le> 0 then [(''claim_amount'', ''Claim amount must be positive'')]
           else if max_claim_amount e < y
           then [(''claim_amount'',
                  ''Claim amount exceeds maximum allowed ('' @ fmt_float e [] (max_claim_amount e) @ '')'')]
           else [])"
  proof -
    have "added_on ''claim_amount'' (errors r) (errors (fst (validate_financial_information e cd r))) =
        added_on ''claim_amount'' (errors r) (errors ?r1)"
      by (simp only: financial_fst added_on_est)
    also have "\<dots> = (case py_float e v of
         None \<Rightarrow> [(''claim_amount'', ''Invalid claim amount format'')]
       | Some y \<Rightarrow>
           if y \<le> 0 then [(''claim_amount'', ''Claim amount must be positive'')]
           else if max_claim_amount e < y
           then [(''claim_amount'',
                  ''Claim amount exceeds maximum allowed ('' @ fmt_float e [] (max_claim_amount e) @ '')'')]
           else [])"
      using assms(1,2)
      by (simp add: validate_claim_amount_exact added_on_def add_error_def add_warning_def
          split: option.splits)
    finally show ?thesis .
  qed
  have W: "added_on ''claim_amount'' (warnings r) (warnings (fst (validate_financial_information e cd r))) =
      (case py_float e v of
         None \<Rightarrow> []
       | Some y \<Rightarrow>
           if 0 < y \<and> y \<le> max_claim_amount e \<and> manual_review_threshold e < y
           then [(''claim_amount'', ''High value claim requires manual review'')] else [])"
  proof -
    have "added_on ''claim_amount'' (warnings r) (warnings (fst (validate_financial_information e cd r))) =
        added_on ''claim_amount'' (warnings r) (warnings ?r1)"
      by (simp only: financial_fst added_on_est)
    also have "\<dots> = (case py_float e v of
         None \<Rightarrow> []
       | Some y \<Rightarrow>
           if 0 < y \<and> y \<le> max_claim_amount e \<and> manual_review_threshold e < y
           then [(''claim_amount'', ''High value claim requires manual review'')] else [])"
      using assms(1,2)
      by (simp add: validate_claim_amount_exact added_on_def add_error_def add_warning_def
          split: option.splits)
    finally show ?thesis .
  qed
  show ?thesis unfolding E W using assms(3) by auto
qed

theorem claim_amount_bands_witness:
  "dget (with_field ''claim_amount'' (PInt 60000) minimal_claim) ''claim_amount'' = PInt 60000
   \<and> PInt 60000 \<noteq> PNone
   \<and> manual_review_threshold sample_env < max_claim_amount sample_env
   \<and> py_float sample_env (PInt 60000) = Some 60000
   \<and> added_on ''claim_amount'' [] (errors (fst (validate_financial_information sample_env
         (with_field ''claim_amount'' (PInt 60000) minimal_claim) ValidationResult_init))) = []
   \<and> added_on ''claim_amount'' [] (warnings (fst (validate_financial_information sample_env
         (with_field ''claim_amount'' (PInt 60000) minimal_claim) ValidationResult_init))) =
       [(''claim_amount'', ''High value claim requires manual review'')]"
proof -
  let ?cd = "with_field ''claim_amount'' (PInt 60000) minimal_claim"
  have h1: "dget ?cd ''claim_amount'' = PInt 60000"
    by (simp add: with_field_def minimal_claim_def dget_def)
  have h2: "PInt 60000 \<noteq> PNone" by simp
  have h3: "manual_review_threshold sample_env < max_claim_amount sample_env"
    by (simp add: sample_env_def)
  have h4: "py_float sample_env (PInt 60000) = Some 60000" by simp
  show ?thesis
    using claim_amount_bands [OF h1 h2 h3, where x = 60000 and r = ValidationResult_init] h1 h3 h4
    by (simp add: sample_env_def ValidationResult_init_def)
qed

lemma py_fmod_multiple: "(py_fmod x 1000 = 0) = (\<exists>k::int. x = 1000 * of_int k)"
proof
  assume "py_fmod x 1000 = 0"
  then have "x = 1000 * of_int \<lfloor>x / 1000\<rfloor>" by (simp add: py_fmod_def)
  then show "\<exists>k::int. x = 1000 * of_int k" ..
next
  assume "\<exists>k::int. x = 1000 * of_int k"
  then obtain k :: int where k: "x = 1000 * of_int k" ..
  then have "\<lfloor>x / 1000\<rfloor> = k" by simp
  then show "py_fmod x 1000 = 0" using k by (simp add: py_fmod_def)
qed

lemma falsy_not_large: "\<not> truthy v \<Longrightarrow> py_float e v = Some x \<Longrightarrow> x < 5000"
  by (cases v) (auto simp: py_strip_def split: if_splits)

lemma indicator_round_number_exact:
  "indicator_round_number e cd r =
     (case py_float e (dget cd ''claim_amount'') of
        None \<Rightarrow> (r, None)
      | Some x \<Rightarrow>
          if (\<exists>k::int. x = 1000 * of_int k) \<and> 5000 \<le> x
          then (add_fraud_indicator ''round_number'' ''low'' (round_number_details e x) r, None)
          else (r, None))"
proof (cases "truthy (dget cd ''claim_amount'')")
  case True
  then show ?thesis
    by (simp add: indicator_round_number_def ok_def py_fmod_multiple split: option.splits)
next
  case False
  then show ?thesis using falsy_not_large [OF False, of e]
    by (auto simp: indicator_round_number_def ok_def split: option.splits)
qed

lemma run_all_keeps:
  "list_all (\<lambda>f. \<forall>r. g (fst (f r)) = g r) fs \<Longrightarrow> g (fst (run_all fs r)) = g r"
proof (induction fs arbitrary: r)
  case Nil
  then show ?case by simp
next
  case (Cons f fs)
  then have f: "g (fst (f r)) = g r" and fs: "\<And>r'. g (fst (run_all fs r')) = g r'" by simp_all
  obtain r1 x where fr: "f r = (r1, x)" by (cases "f r")
  show ?case using f fs [of r1] fr by (cases x) simp_all
qed

lemma other_indicators_keep:
  "round_number_entries (fst (indicator_high_value_claim e cd r)) = round_number_entries r"
  "round_number_entries (fst (indicator_name_mismatch cd r)) = round_number_entries r"
  "round_number_entries (fst (indicator_vague_description cd r)) = round_number_entries r"
  "round_number_entries (fst (indicator_missing_information cd r)) = round_number_entries r"
  by (auto simp: round_number_entries_def indicator_high_value_claim_def indicator_name_mismatch_def
      indicator_vague_description_def indicator_missing_information_def ok_def raise_def Let_def
      add_fraud_indicator_def split: option.splits sum.splits)

lemma detect_split:
  "detect_fraud_indicators e cd =
     run_all ([indicator_high_value_claim e cd, indicator_name_mismatch cd, indicator_vague_description cd]
              @ [indicator_round_number e cd, indicator_missing_information cd])"
  by (simp add: detect_fraud_indicators_def)

lemma detect_round_number_entries:
  "round_number_entries (fst (detect_fraud_indicators e cd r)) =
     round_number_entries r @
       (if snd (run_all [indicator_high_value_claim e cd, indicator_name_mismatch cd,
                         indicator_vague_description cd] r) = None
        then (case py_float e (dget cd ''claim_amount'') of
                None \<Rightarrow> []
              | Some x \<Rightarrow>
                  if (\<exists>k::int. x = 1000 * of_int k) \<and> 5000 \<le> x
                  then [(''round_number'', ''low'', round_number_details e x)] else [])
        else [])"
proof -
  let ?pre = "[indicator_high_value_claim e cd, indicator_name_mismatch cd, indicator_vague_description cd]"
  obtain r3 x3 where p: "run_all ?pre r = (r3, x3)" by (cases "run_all ?pre r")
  have k3: "round_number_entries r3 = round_number_entries r"
    using run_all_keeps [of round_number_entries ?pre r] p by (simp add: other_indicators_keep)
  show ?thesis
  proof (cases x3)
    case (Some a)
    then show ?thesis unfolding detect_split run_all_append using p k3 by simp
  next
    case None
    obtain r4 where r4: "indicator_round_number e cd r3 = (r4, None)"
      by (cases "indicator_round_number e cd r3")
         (auto simp: indicator_round_number_exact split: option.splits if_splits)
    have k4: "round_number_entries r4 = round_number_entries r3 @
        (case py_float e (dget cd ''claim_amount'') of
                None \<Rightarrow> []
              | Some x \<Rightarrow>
                  if (\<exists>k::int. x = 1000 * of_int k) \<and> 5000 \<le> x
                  then [(''round_number'', ''low'', round_number_details e x)] else [])"
      using r4
      by (auto simp: indicator_round_number_exact round_number_entries_def add_fraud_indicator_def
          split: option.splits if_splits)
    have "fst (detect_fraud_indicators e cd r) = fst (indicator_missing_information cd r4)"
      unfolding detect_split run_all_append using p None r4
      by (cases "indicator_missing_information cd r4") (simp split: option.splits)
    then show ?thesis using other_indicators_keep(4) [of cd r4] k4 k3 p None by simp
  qed
qed

text \<open>
  C9. The round-number check adds the indicator \<^verbatim>\<open>round_number\<close> with severity
  \<^verbatim>\<open>low\<close> exactly when \<^verbatim>\<open>claim_amount\<close> converts to a number that is an integer
  multiple of 1000 and at least 5000, and otherwise leaves the accumulator alone; it never
  raises. Within \<^verbatim>\<open>_detect_fraud_indicators\<close> the check is the fourth one and is reached
  when the three checks before it do not raise. A claim amount of 10000 yields the indicator
  in the outcome of \<^verbatim>\<open>validate_claim\<close>, 10500 does not.
\<close>

theorem round_number_indicator_iff:
  "indicator_round_number e cd r =
     (case py_float e (dget cd ''claim_amount'') of
        None \<Rightarrow> (r, None)
      | Some x \<Rightarrow>
          if (\<exists>k::int. x = 1000 * of_int k) \<and> 5000 \<le> x
          then (add_fraud_indicator ''round_number'' ''low'' (round_number_details e x) r, None)
          else (r, None))
   \<and> round_number_entries (fst (detect_fraud_indicators e cd r)) =
       round_number_entries r @
         (if snd (run_all [indicator_high_value_claim e cd, indicator_name_mismatch cd,
                           indicator_vague_description cd] r) = None
          then (case py_float e (dget cd ''claim_amount'') of
                  None \<Rightarrow> []
                | Some x \<Rightarrow>
                    if (\<exists>k::int. x = 1000 * of_int k) \<and> 5000 \<le> x
                    then [(''round_number'', ''low'', round_number_details e x)] else [])
          else [])
   \<and> round_number_entries (validate_claim sample_env (with_field ''claim_amount'' (PInt 10000) minimal_claim)) =
       [(''round_number'', ''low'', round_number_details sample_env 10000)]
   \<and> round_number_entries (validate_claim sample_env (with_field ''claim_amount'' (PInt 10500) minimal_claim)) = []"
proof -
  have a: "round_number_entries (validate_claim sample_env (with_field ''claim_amount'' (PInt 10000) minimal_claim)) =
       [(''round_number'', ''low'', round_number_details sample_env 10000)]"
    by (simp add: eval_defs round_number_entries_def)
  have b: "round_number_entries (validate_claim sample_env (with_field ''claim_amount'' (PInt 10500) minimal_claim)) = []"
    by (simp add: eval_defs round_number_entries_def)
  show ?thesis
    using indicator_round_number_exact [of e cd r] detect_round_number_entries [of e cd r] a b
    by (simp only: simp_thms)
qed

theorem round_number_indicator_iff_witness:
  "indicator_round_number sample_env (with_field ''claim_amount'' (PInt 10000) minimal_claim)
      ValidationResult_init =
     (add_fraud_indicator ''round_number'' ''low'' (round_number_details sample_env 10000)
        ValidationResult_init, None)
   \<and> indicator_round_number sample_env (with_field ''claim_amount'' (PInt 10500) minimal_claim)
      ValidationResult_init = (ValidationResult_init, None)"
proof -
  have k: "\<exists>k::int. (10000::real) = 1000 * of_int k"
    by (rule exI [of _ 10]) simp
  have n: "\<not> (\<exists>k::int. (10500::real) = 1000 * of_int k)"
  proof
    assume "\<exists>k::int. (10500::real) = 1000 * of_int k"
    then obtain k :: int where "(10500::real) = 1000 * of_int k" ..
    then have "of_int (10500::int) = (of_int (1000 * k) :: real)" by simp
    then have "(10500::int) = 1000 * k" by (simp only: of_int_eq_iff)
    then have "(1000::int) dvd 10500" by (simp only: dvd_triv_left)
    then show False by simp
  qed
  have d1: "py_float sample_env (dget (with_field ''claim_amount'' (PInt 10000) minimal_claim) ''claim_amount'') = Some 10000"
    by (simp add: with_field_def minimal_claim_def dget_def)
  have d2: "py_float sample_env (dget (with_field ''claim_amount'' (PInt 10500) minimal_claim) ''claim_amount'') = Some 10500"
    by (simp add: with_field_def minimal_claim_def dget_def)
  note a = conjunct1 [OF round_number_indicator_iff [of sample_env
        "with_field ''claim_amount'' (PInt 10000) minimal_claim" ValidationResult_init]]
  note b = conjunct1 [OF round_number_indicator_iff [of sample_env
        "with_field ''claim_amount'' (PInt 10500) minimal_claim" ValidationResult_init]]
  have a': "indicator_round_number sample_env (with_field ''claim_amount'' (PInt 10000) minimal_claim)
      ValidationResult_init =
     (add_fraud_indicator ''round_number'' ''low'' (round_number_details sample_env 10000)
        ValidationResult_init, None)"
    unfolding a d1 using k by simp
  have b': "indicator_round_number sample_env (with_field ''claim_amount'' (PInt 10500) minimal_claim)
      ValidationResult_init = (ValidationResult_init, None)"
    unfolding b d2 using n by simp
  show ?thesis using a' b' by simp
qed

lemma financial_never_raises: "snd (validate_financial_information e cd r) = None"
  by (simp add: validate_financial_information_def validate_claim_amount_exact
      validate_estimated_damage_exact)

text \<open>
  C10. The estimated-damage check and the whole financial stage never raise. The division
  \<^verbatim>\<open>abs(est - claim) / max(est, claim)\<close> is evaluated only after the branch
  \<open>est \<le> 0\<close> has been ruled out, and for \<open>0 < est\<close> the divisor is not zero whatever the
  claim amount is, zero and negative amounts included.
\<close>

theorem discrepancy_division_guarded:
  "snd (validate_estimated_damage e cd r) = None
   \<and> snd (validate_financial_information e cd r) = None
   \<and> (0 < est_val \<longrightarrow>
        py_truediv (abs (est_val - claim_val)) (max est_val claim_val) =
          Inr (abs (est_val - claim_val) / max est_val claim_val))
   \<and> validate_estimated_damage e cd r =
     (if dget cd ''estimated_damage_amount'' = PNone \<or> dget cd ''claim_amount'' = PNone then r
      else (case py_float e (dget cd ''estimated_damage_amount'') of
              None \<Rightarrow> add_error ''estimated_damage_amount'' ''Invalid estimated damage amount format'' r
            | Some est \<Rightarrow>
                (case py_float e (dget cd ''claim_amount'') of
                   None \<Rightarrow> add_error ''estimated_damage_amount'' ''Invalid estimated damage amount format'' r
                 | Some claim \<Rightarrow>
                     if est \<le> 0
                     then add_error ''estimated_damage_amount'' ''Estimated damage must be positive'' r
                     else if 1 / 2 < abs (est - claim) / max est claim
                     then add_warning ''amount_consistency''
                            ''Large discrepancy between estimated damage and claim amount'' r
                     else r)), None)"
proof -
  have a: "snd (validate_estimated_damage e cd r) = None"
    by (simp add: validate_estimated_damage_exact)
  have b: "0 < est_val \<longrightarrow>
        py_truediv (abs (est_val - claim_val)) (max est_val claim_val) =
          Inr (abs (est_val - claim_val) / max est_val claim_val)"
    by (auto simp: py_truediv_def)
  show ?thesis
    using a b financial_never_raises [of e cd r] validate_estimated_damage_exact [of e cd r]
    by (simp only: simp_thms)
qed

theorem discrepancy_division_guarded_witness:
  "(0::real) < 100
   \<and> py_truediv (abs (100 - 0)) (max 100 0) = Inr 1
   \<and> py_truediv (abs (100 - (- 50))) (max 100 (- 50)) = Inr (3 / 2)
   \<and> validate_estimated_damage sample_env
        [(''estimated_damage_amount'', PInt 100), (''claim_amount'', PInt 0)] ValidationResult_init =
       (add_warning ''amount_consistency'' ''Large discrepancy between estimated damage and claim amount''
          ValidationResult_init, None)
   \<and> validate_estimated_damage sample_env
        [(''estimated_damage_amount'', PInt 0), (''claim_amount'', PInt 0)] ValidationResult_init =
       (add_error ''estimated_damage_amount'' ''Estimated damage must be positive''
          ValidationResult_init, None)"
  using discrepancy_division_guarded [of sample_env
      "[(''estimated_damage_amount'', PInt 100), (''claim_amount'', PInt 0)]" ValidationResult_init 100 0]
    discrepancy_division_guarded [of sample_env
      "[(''estimated_damage_amount'', PInt 0), (''claim_amount'', PInt 0)]" ValidationResult_init 100 "- 50"]
  by (simp add: dget_def)

end
